theory Spec2Isabelle
  imports Complex_Main "HOL-Library.Char_ord" "HOL-Library.List_Lexorder" "HOL-Library.Multiset"
    "HOL-Library.Word"
begin

section \<open>The environment both scripts run in\<close>

text \<open>
  Both scripts are sequential glue around two libraries and the local file system.
  The libraries are parameters of the model; the file system is a value.

  An exception is a value of type \<open>exn\<close>: its class name and the text \<open>str(e)\<close>
  gives. The type stands for instances of Python's \<open>Exception\<close>, the class both
  handlers of the source name (\<open>except Exception as e\<close>); interrupts of the
  interpreter (\<open>KeyboardInterrupt\<close>, \<open>SystemExit\<close>) are not values of it.
\<close>

datatype exn = Exn (cls: string) (str_exn: string)

text \<open>
  The file system as the scripts read it: the entries of the directory
  \<open>checkpoints\<close> in the order the operating system lists them (\<open>None\<close> when the
  directory does not exist), and the paths outside that directory. An entry has the
  size \<open>stat\<close> reports for it, the 64 bits of \<open>st_size\<close>, or \<open>None\<close> when \<open>stat\<close> fails
  on it, as it does on a symbolic link whose target is gone: the directory lists such a
  link, and \<open>glob\<close> yields it, but it neither exists nor has a size.
\<close>

record filesys =
  checkpoints :: "(string \<times> 64 word option) list option"
  elsewhere :: "(string \<times> 64 word) list"

definition checkpoints_dir :: string where
  "checkpoints_dir = ''checkpoints''"

text \<open>\<open>checkpoints_dir / name\<close>, and \<open>str\<close> of it.\<close>

definition path_join :: "string \<Rightarrow> string \<Rightarrow> string" where
  "path_join d n = d @ ''/'' @ n"

text \<open>\<open>Path("checkpoints").exists()\<close>\<close>

definition dir_exists :: "filesys \<Rightarrow> bool" where
  "dir_exists fs = (checkpoints fs \<noteq> None)"

text \<open>
  \<open>checkpoints_dir.glob("*.pt")\<close> and \<open>checkpoints_dir.glob("*.onnx")\<close>: the names of
  the directory that end with the extension, in the order the directory lists them,
  whether or not \<open>stat\<close> succeeds on them; pathlib yields nothing for a directory that
  does not exist.
\<close>

definition ends_with :: "string \<Rightarrow> string \<Rightarrow> bool" where
  "ends_with ext n = (length ext \<le> length n \<and> drop (length n - length ext) n = ext)"

definition glob :: "filesys \<Rightarrow> string \<Rightarrow> string list" where
  "glob fs ext =
     (case checkpoints fs of
        None \<Rightarrow> []
      | Some entries \<Rightarrow> filter (ends_with ext) (map fst entries))"

text \<open>
  What \<open>stat\<close> finds at a path: the size of the entry, or nothing when there is no
  entry or \<open>stat\<close> fails on it. A path \<open>checkpoints/name\<close> is looked up in the
  directory, any other path outside it.
\<close>

definition os_stat :: "filesys \<Rightarrow> string \<Rightarrow> nat option" where
  "os_stat fs p =
     (let pre = path_join checkpoints_dir [] in
      if take (length pre) p = pre then
        (case checkpoints fs of
           None \<Rightarrow> None
         | Some entries \<Rightarrow>
             (case map_of entries (drop (length pre) p) of
                Some (Some st_size) \<Rightarrow> Some (unat st_size)
              | _ \<Rightarrow> None))
      else map_option unat (map_of (elsewhere fs) p))"

definition os_path_exists :: "filesys \<Rightarrow> string \<Rightarrow> bool" where
  "os_path_exists fs p = (os_stat fs p \<noteq> None)"

definition os_path_getsize :: "filesys \<Rightarrow> string \<Rightarrow> exn + nat" where
  "os_path_getsize fs p =
     (case os_stat fs p of
        None \<Rightarrow> Inl (Exn ''FileNotFoundError'' p)
      | Some n \<Rightarrow> Inr n)"

text \<open>
  Python's floats are binary64. \<open>n / (1024 * 1024)\<close> for an integer \<open>n\<close> is the float
  nearest to the quotient, a tie going to the even significand. A float has 53
  significant bits and dividing by \<open>2^20\<close> only moves the exponent, so the result is
  the quotient itself when \<open>n\<close> has at most 53 bits, and else \<open>n\<close> rounded to 53
  significant bits, divided by \<open>2^20\<close>. A size of 64 bits neither overflows nor
  underflows. The float is given as the rational number it is.
\<close>

fun bit_length :: "nat \<Rightarrow> nat" where
  "bit_length n = (if n = 0 then 0 else Suc (bit_length (n div 2)))"

declare bit_length.simps [simp del]

definition round_half_even :: "rat \<Rightarrow> int" where
  "round_half_even t =
     (let q = \<lfloor>t\<rfloor>; r = t - of_int q in
      if r < 1 / 2 then q
      else if 1 / 2 < r then q + 1
      else if even q then q else q + 1)"

definition div_mib :: "nat \<Rightarrow> rat" where
  "div_mib n =
     (let k = bit_length n in
      if k \<le> 53 then of_nat n / (1024 * 1024)
      else of_int (round_half_even (of_nat n / 2 ^ (k - 53))) * 2 ^ (k - 53) / (1024 * 1024))"

text \<open>
  \<open>format(x, ".1f")\<close> for a float \<open>x\<close>: the decimal with one fractional digit nearest
  to the value of \<open>x\<close>, a tie going to the even digit; the result is in tenths, so
  \<open>format_1f x = 25\<close> prints as \<open>2.5\<close>.
\<close>

definition format_1f :: "rat \<Rightarrow> int" where
  "format_1f x = round_half_even (10 * x)"

section \<open>convert_to_onnx.py\<close>

text \<open>The keyword arguments of \<open>model.export\<close>.\<close>

record export_args =
  format :: string
  imgsz :: int
  optimize :: bool
  half :: bool
  dynamic :: bool
  simplify :: bool
  opset :: int

text \<open>The arguments the script passes, lines 46 to 54.\<close>

definition onnx_args :: export_args where
  "onnx_args =
     \<lparr>format = ''onnx'', imgsz = 640, optimize = True, half = False,
      dynamic = False, simplify = True, opset = 11\<rparr>"

text \<open>
  The ultralytics library: \<open>YOLO(path)\<close> loads a checkpoint and returns a model or
  raises; \<open>model.export(...)\<close> returns the path of the exported file or raises. Both
  may write to the file system, also when they raise.
\<close>

record 'm ultralytics =
  YOLO :: "string \<Rightarrow> filesys \<Rightarrow> (exn + 'm) \<times> filesys"
  export :: "'m \<Rightarrow> export_args \<Rightarrow> filesys \<Rightarrow> (exn + string) \<times> filesys"

datatype 'm call = YOLO_call string | export_call 'm export_args

text \<open>
  One constructor for each \<open>print\<close> of the script, carrying the values the
  f-string interpolates. A size is carried as \<open>.1f\<close> renders it, in tenths of a
  mebibyte.
\<close>

datatype cline =
    DirNotFound string
  | NoCheckpoints string
  | Found nat
  | FoundItem string
  | Starting
  | Converting string
  | Converted string
  | OnnxFile string
  | FailedToConvert string string
  | Summary
  | SuccessfulCount nat
  | FailedCount nat
  | SuccessHeader
  | SuccessRow string string "int option"
  | FailureHeader
  | FailureRow string string

text \<open>The state of a run: the file system, what was printed, the library calls made.\<close>

record 'm world =
  files :: filesys
  stdout :: "cline list"
  trace :: "'m call list"

definition print :: "cline \<Rightarrow> 'm world \<Rightarrow> 'm world" where
  "print l w = w\<lparr>stdout := stdout w @ [l]\<rparr>"

definition call_YOLO ::
  "'m ultralytics \<Rightarrow> string \<Rightarrow> 'm world \<Rightarrow> (exn + 'm) \<times> 'm world" where
  "call_YOLO U p w =
     (case YOLO U p (files w) of
        (r, fs') \<Rightarrow> (r, w\<lparr>files := fs', trace := trace w @ [YOLO_call p]\<rparr>))"

definition call_export ::
  "'m ultralytics \<Rightarrow> 'm \<Rightarrow> export_args \<Rightarrow> 'm world \<Rightarrow> (exn + string) \<times> 'm world" where
  "call_export U m a w =
     (case export U m a (files w) of
        (r, fs') \<Rightarrow> (r, w\<lparr>files := fs', trace := trace w @ [export_call m a]\<rparr>))"

text \<open>
  The body of the \<open>try\<close>, lines 40 to 58, for the checkpoint \<open>name\<close>: \<open>Inl e\<close> when
  the load or the export raises \<open>e\<close>, else the list of successful conversions with the
  new pair appended.
\<close>

definition try_convert ::
  "'m ultralytics \<Rightarrow> string \<Rightarrow> (string \<times> string) list \<Rightarrow> 'm world
     \<Rightarrow> (exn + (string \<times> string) list) \<times> 'm world" where
  "try_convert U name successful w =
     (case call_YOLO U (path_join checkpoints_dir name) (print (Converting name) w) of
        (Inl e, w1) \<Rightarrow> (Inl e, w1)
      | (Inr model, w1) \<Rightarrow>
          (case call_export U model onnx_args w1 of
             (Inl e, w2) \<Rightarrow> (Inl e, w2)
           | (Inr onnx_path, w2) \<Rightarrow>
               (Inr (successful @ [(name, onnx_path)]),
                print (OnnxFile onnx_path) (print (Converted name) w2))))"

text \<open>The loop of lines 38 to 62, with the \<open>except\<close> branch of lines 60 to 62.\<close>

fun convert_loop ::
  "'m ultralytics \<Rightarrow> string list \<Rightarrow> (string \<times> string) list \<Rightarrow> (string \<times> string) list
     \<Rightarrow> 'm world \<Rightarrow> (string \<times> string) list \<times> (string \<times> string) list \<times> 'm world" where
  "convert_loop U [] successful failed w = (successful, failed, w)"
| "convert_loop U (name # rest) successful failed w =
     (case try_convert U name successful w of
        (Inr successful', w') \<Rightarrow> convert_loop U rest successful' failed w'
      | (Inl e, w') \<Rightarrow>
          convert_loop U rest successful (failed @ [(name, str_exn e)])
            (print (FailedToConvert name (str_exn e)) w'))"

text \<open>
  Lines 71 to 77. \<open>os.path.exists\<close> and \<open>os.path.getsize\<close> read the same entry, so
  the size is there whenever the test succeeds.
\<close>

fun print_successful :: "(string \<times> string) list \<Rightarrow> 'm world \<Rightarrow> 'm world" where
  "print_successful [] w = w"
| "print_successful ((original, onnx_path) # rest) w =
     print_successful rest
       (print (SuccessRow original onnx_path
                 (map_option (format_1f \<circ> div_mib) (os_stat (files w) onnx_path))) w)"

fun print_failed :: "(string \<times> string) list \<Rightarrow> 'm world \<Rightarrow> 'm world" where
  "print_failed [] w = w"
| "print_failed ((original, error) # rest) w =
     print_failed rest (print (FailureRow original error) w)"

fun print_found :: "string list \<Rightarrow> 'm world \<Rightarrow> 'm world" where
  "print_found [] w = w"
| "print_found (name # rest) w = print_found rest (print (FoundItem name) w)"

definition convert_checkpoints_to_onnx ::
  "'m ultralytics \<Rightarrow> 'm world \<Rightarrow> bool \<times> 'm world" where
  "convert_checkpoints_to_onnx U w =
     (if \<not> dir_exists (files w) then (False, print (DirNotFound checkpoints_dir) w)
      else
        let checkpoint_files = glob (files w) ''.pt'' in
        if checkpoint_files = [] then (False, print (NoCheckpoints checkpoints_dir) w)
        else
          let w1 = print Starting
                     (print_found checkpoint_files (print (Found (length checkpoint_files)) w))
          in case convert_loop U checkpoint_files [] [] w1 of
               (successful, failed, w2) \<Rightarrow>
                 let w3 = print (FailedCount (length failed))
                            (print (SuccessfulCount (length successful)) (print Summary w2));
                     w4 = (if successful \<noteq> []
                           then print_successful successful (print SuccessHeader w3) else w3);
                     w5 = (if failed \<noteq> []
                           then print_failed failed (print FailureHeader w4) else w4)
                 in (length failed = 0, w5))"

text \<open>The start of a run, and lines 86 to 88: the exit status of the process.\<close>

definition start :: "filesys \<Rightarrow> 'm world" where
  "start fs = \<lparr>files = fs, stdout = [], trace = []\<rparr>"

definition converter_main :: "'m ultralytics \<Rightarrow> filesys \<Rightarrow> int \<times> 'm world" where
  "converter_main U fs =
     (case convert_checkpoints_to_onnx U (start fs) of
        (success, w) \<Rightarrow> ((if success then 0 else 1), w))"

section \<open>verify_onnx.py\<close>

text \<open>The values the verifier's dictionaries hold.\<close>

datatype pyval =
    PyStr string
  | PyInt int
  | PyList "pyval list"
  | PyDict "(string \<times> pyval) list"

type_synonym pydict = "(string \<times> pyval) list"

text \<open>\<open>d[k]\<close> on a dictionary, \<open>v[k]\<close> with a string key on any value.\<close>

definition dict_getitem :: "pydict \<Rightarrow> string \<Rightarrow> exn + pyval" where
  "dict_getitem d k =
     (case map_of d k of None \<Rightarrow> Inl (Exn ''KeyError'' k) | Some v \<Rightarrow> Inr v)"

fun py_getitem :: "pyval \<Rightarrow> string \<Rightarrow> exn + pyval" where
  "py_getitem (PyDict d) k = dict_getitem d k"
| "py_getitem v k = Inl (Exn ''TypeError'' k)"

text \<open>\<open>v[i]\<close> with a non-negative index \<open>i\<close>.\<close>

fun py_index :: "pyval \<Rightarrow> nat \<Rightarrow> exn + pyval" where
  "py_index (PyList xs) i =
     (if i < length xs then Inr (xs ! i) else Inl (Exn ''IndexError'' ''list index out of range''))"
| "py_index (PyStr s) i =
     (if i < length s then Inr (PyStr [s ! i])
      else Inl (Exn ''IndexError'' ''string index out of range''))"
| "py_index (PyDict d) i = Inl (Exn ''KeyError'' [])"
| "py_index (PyInt n) i = Inl (Exn ''TypeError'' ''not subscriptable'')"

text \<open>The truth value of a value in an \<open>if\<close>.\<close>

fun py_truthy :: "pyval \<Rightarrow> bool" where
  "py_truthy (PyStr s) = (s \<noteq> [])"
| "py_truthy (PyInt n) = (n \<noteq> 0)"
| "py_truthy (PyList xs) = (xs \<noteq> [])"
| "py_truthy (PyDict d) = (d \<noteq> [])"

text \<open>The elements a \<open>for\<close> loop over a value visits.\<close>

fun py_iter :: "pyval \<Rightarrow> exn + pyval list" where
  "py_iter (PyList xs) = Inr xs"
| "py_iter (PyStr s) = Inr (map (\<lambda>c. PyStr [c]) s)"
| "py_iter (PyDict d) = Inr (map (\<lambda>kv. PyStr (fst kv)) d)"
| "py_iter (PyInt n) = Inl (Exn ''TypeError'' ''not iterable'')"

text \<open>
  The onnx library: what the script reads of a \<open>ValueInfoProto\<close> (its name, the
  \<open>dim_value\<close> of each dimension, the element type) and of a \<open>ModelProto\<close> (the
  inputs and outputs of the graph, the versions of \<open>opset_import\<close>).
\<close>

record value_info =
  vi_name :: string
  vi_dims :: "int list"
  vi_elem_type :: int

record model_proto =
  graph_input :: "value_info list"
  graph_output :: "value_info list"
  opset_import :: "int list"

text \<open>
  \<open>onnx.load(path)\<close> opens the file and parses it: it raises when the path cannot be
  opened, and else returns or raises what the library makes of the file, the parameter
  \<open>onnx_parse\<close>.
\<close>

definition onnx_load ::
  "(string \<Rightarrow> exn + model_proto) \<Rightarrow> filesys \<Rightarrow> string \<Rightarrow> exn + model_proto" where
  "onnx_load onnx_parse fs p =
     (case os_stat fs p of
        None \<Rightarrow> Inl (Exn ''FileNotFoundError'' p)
      | Some _ \<Rightarrow> onnx_parse p)"

text \<open>Lines 10 to 12.\<close>

definition get_file_size_mb :: "filesys \<Rightarrow> string \<Rightarrow> exn + rat" where
  "get_file_size_mb fs file_path =
     (case os_path_getsize fs file_path of
        Inl e \<Rightarrow> Inl e
      | Inr n \<Rightarrow> Inr (div_mib n))"

text \<open>The dictionary of lines 23 to 27 and 32 to 36.\<close>

definition tensor_dict :: "value_info \<Rightarrow> pyval" where
  "tensor_dict t =
     PyDict [(''name'', PyStr (vi_name t)),
             (''shape'', PyList (map PyInt (vi_dims t))),
             (''dtype'', PyInt (vi_elem_type t))]"

text \<open>The body of the \<open>try\<close>, lines 17 to 42.\<close>

definition analyze_try ::
  "(string \<Rightarrow> exn + model_proto) \<Rightarrow> filesys \<Rightarrow> string \<Rightarrow> exn + pydict" where
  "analyze_try onnx_parse fs onnx_path =
     (case onnx_load onnx_parse fs onnx_path of
        Inl e \<Rightarrow> Inl e
      | Inr model \<Rightarrow>
          Inr [(''inputs'', PyList (map tensor_dict (graph_input model))),
               (''outputs'', PyList (map tensor_dict (graph_output model))),
               (''opset_version'',
                  (case opset_import model of
                     [] \<Rightarrow> PyStr ''Unknown''
                   | version # _ \<Rightarrow> PyInt version))])"

text \<open>Lines 14 to 44: the \<open>try\<close> with its handler.\<close>

definition analyze_onnx_model ::
  "(string \<Rightarrow> exn + model_proto) \<Rightarrow> filesys \<Rightarrow> string \<Rightarrow> exn + pydict" where
  "analyze_onnx_model onnx_parse fs onnx_path =
     (case analyze_try onnx_parse fs onnx_path of
        Inr analysis \<Rightarrow> Inr analysis
      | Inl e \<Rightarrow> Inr [(''error'', PyStr (str_exn e))])"

text \<open>One constructor for each \<open>print\<close> of the verifier.\<close>

datatype vline =
    Title
  | DoubleRule
  | NoOnnx
  | FoundModels nat
  | FileName string
  | Size int
  | AnalyzeError pyval
  | Opset pyval
  | Input pyval pyval
  | Output nat pyval pyval
  | Blank
  | TableTitle
  | SingleRule
  | TableHead
  | TableRow string int string string
  | Advice nat

text \<open>
  A piece of the verifier: what it printed, and the value it ended with or the
  exception that left it.
\<close>

type_synonym 'a py = "(exn + 'a) \<times> vline list"

definition py_return :: "'a \<Rightarrow> 'a py" where
  "py_return v = (Inr v, [])"

definition py_print :: "vline \<Rightarrow> unit py" where
  "py_print l = (Inr (), [l])"

definition py_lift :: "exn + 'a \<Rightarrow> 'a py" where
  "py_lift r = (r, [])"

definition py_bind :: "'a py \<Rightarrow> ('a \<Rightarrow> 'b py) \<Rightarrow> 'b py" where
  "py_bind m f =
     (case m of
        (Inl e, out) \<Rightarrow> (Inl e, out)
      | (Inr v, out) \<Rightarrow> (case f v of (r, out') \<Rightarrow> (r, out @ out')))"

definition py_seq :: "unit py \<Rightarrow> 'b py \<Rightarrow> 'b py" where
  "py_seq m n = py_bind m (\<lambda>_. n)"

text \<open>Lines 76 to 78.\<close>

definition print_input :: "pydict \<Rightarrow> unit py" where
  "print_input analysis =
     py_bind (py_lift (dict_getitem analysis ''inputs'')) (\<lambda>inputs.
       if py_truthy inputs then
         py_bind (py_lift (dict_getitem analysis ''inputs'')) (\<lambda>inputs'.
         py_bind (py_lift (py_index inputs' 0)) (\<lambda>input_info.
         py_bind (py_lift (py_getitem input_info ''name'')) (\<lambda>n.
         py_bind (py_lift (py_getitem input_info ''shape'')) (\<lambda>shape.
         py_print (Input n shape)))))
       else py_return ())"

text \<open>Lines 82 and 83: \<open>enumerate\<close> counts from \<open>i\<close>, the line shows \<open>i + 1\<close>.\<close>

definition print_output :: "nat \<Rightarrow> pyval \<Rightarrow> unit py" where
  "print_output i output_info =
     py_bind (py_lift (py_getitem output_info ''name'')) (\<lambda>n.
     py_bind (py_lift (py_getitem output_info ''shape'')) (\<lambda>shape.
     py_print (Output (i + 1) n shape)))"

fun print_outputs_from :: "nat \<Rightarrow> pyval list \<Rightarrow> unit py" where
  "print_outputs_from i [] = py_return ()"
| "print_outputs_from i (output_info # rest) =
     (case print_output i output_info of
        (Inl e, out) \<Rightarrow> (Inl e, out)
      | (Inr _, out) \<Rightarrow>
          (case print_outputs_from (i + 1) rest of (r, out') \<Rightarrow> (r, out @ out')))"

text \<open>Lines 81 to 83.\<close>

definition print_outputs :: "pydict \<Rightarrow> unit py" where
  "print_outputs analysis =
     py_bind (py_lift (dict_getitem analysis ''outputs'')) (\<lambda>outputs.
       if py_truthy outputs then
         py_bind (py_lift (dict_getitem analysis ''outputs'')) (\<lambda>outputs'.
         py_bind (py_lift (py_iter outputs')) (print_outputs_from 0))
       else py_return ())"

text \<open>The body of the loop over the files, lines 64 to 85.\<close>

definition report_file :: "(string \<Rightarrow> exn + model_proto) \<Rightarrow> filesys \<Rightarrow> string \<Rightarrow> unit py" where
  "report_file onnx_parse fs file_name =
     (let onnx_file = path_join checkpoints_dir file_name in
      py_seq (py_print (FileName file_name))
     (py_bind (py_lift (get_file_size_mb fs onnx_file)) (\<lambda>size_mb.
      py_seq (py_print (Size (format_1f size_mb)))
     (py_bind (py_lift (analyze_onnx_model onnx_parse fs onnx_file)) (\<lambda>analysis.
      py_seq
        (if map_of analysis ''error'' \<noteq> None then
           py_bind (py_lift (dict_getitem analysis ''error'')) (\<lambda>e. py_print (AnalyzeError e))
         else
           py_seq (py_bind (py_lift (dict_getitem analysis ''opset_version''))
                     (\<lambda>v. py_print (Opset v)))
          (py_seq (print_input analysis) (print_outputs analysis)))
        (py_print Blank))))))"

fun report_files :: "(string \<Rightarrow> exn + model_proto) \<Rightarrow> filesys \<Rightarrow> string list \<Rightarrow> unit py" where
  "report_files onnx_parse fs [] = py_return ()"
| "report_files onnx_parse fs (file_name # rest) =
     (case report_file onnx_parse fs file_name of
        (Inl e, out) \<Rightarrow> (Inl e, out)
      | (Inr _, out) \<Rightarrow>
          (case report_files onnx_parse fs rest of (r, out') \<Rightarrow> (r, out @ out')))"

text \<open>Lines 93 to 100.\<close>

definition model_info :: "(string \<times> string) list" where
  "model_info =
     [(''yolo11n.onnx'', ''Fastest inference, lowest memory''),
      (''yolo11s.onnx'', ''Balance of speed and accuracy''),
      (''yolov10n.onnx'', ''Latest architecture, efficient''),
      (''yolov10s.onnx'', ''Good accuracy, moderate speed''),
      (''yolov8n.onnx'', ''Proven performance, good speed''),
      (''yolov9s.onnx'', ''High accuracy, slower inference'')]"

text \<open>Lines 102 to 106.\<close>

definition table_row :: "filesys \<Rightarrow> string \<times> string \<Rightarrow> unit py" where
  "table_row fs = (\<lambda>(model_name, description).
     let model_path = path_join checkpoints_dir model_name in
     if os_path_exists fs model_path then
       py_bind (py_lift (get_file_size_mb fs model_path)) (\<lambda>size.
         py_print (TableRow model_name (format_1f size) ''~2-9M'' description))
     else py_return ())"

fun table_rows :: "filesys \<Rightarrow> (string \<times> string) list \<Rightarrow> unit py" where
  "table_rows fs [] = py_return ()"
| "table_rows fs (entry # rest) =
     (case table_row fs entry of
        (Inl e, out) \<Rightarrow> (Inl e, out)
      | (Inr _, out) \<Rightarrow> (case table_rows fs rest of (r, out') \<Rightarrow> (r, out @ out')))"

text \<open>Lines 108 to 116: nine lines of fixed text.\<close>

definition closing_lines :: "vline list" where
  "closing_lines = SingleRule # map Advice [1, 2, 3, 4, 5, 6, 7, 8]"

text \<open>Lines 46 to 118.\<close>

definition verify_onnx_exports :: "(string \<Rightarrow> exn + model_proto) \<Rightarrow> filesys \<Rightarrow> bool py" where
  "verify_onnx_exports onnx_parse fs =
     py_seq (py_print Title)
    (py_seq (py_print DoubleRule)
    (let onnx_files = glob fs ''.onnx'' in
     if onnx_files = [] then py_seq (py_print NoOnnx) (py_return False)
     else
       py_seq (py_print (FoundModels (length onnx_files)))
      (py_seq (report_files onnx_parse fs (sort onnx_files))
      (py_seq (Inr (), [TableTitle, SingleRule, TableHead, SingleRule])
      (py_seq (table_rows fs model_info)
      (py_seq (Inr (), closing_lines)
      (py_return True)))))))"

text \<open>
  Lines 120 and 121: the value returned is dropped; the process ends with status 0,
  or with status 1 when an exception leaves the function.
\<close>

definition verifier_main :: "(string \<Rightarrow> exn + model_proto) \<Rightarrow> filesys \<Rightarrow> int \<times> vline list" where
  "verifier_main onnx_parse fs =
     (case verify_onnx_exports onnx_parse fs of
        (Inl e, out) \<Rightarrow> (1, out)
      | (Inr _, out) \<Rightarrow> (0, out))"

section \<open>What a run is expected to do\<close>

text \<open>
  The conversion of one checkpoint as the specification describes it: load, then
  export with the fixed configuration; the result is the exported path, or the
  exception the load or the export raised.
\<close>

definition convert_one ::
  "'m ultralytics \<Rightarrow> string \<Rightarrow> filesys \<Rightarrow> (exn + string) \<times> filesys" where
  "convert_one U name fs =
     (case YOLO U (path_join checkpoints_dir name) fs of
        (Inl e, fs1) \<Rightarrow> (Inl e, fs1)
      | (Inr model, fs1) \<Rightarrow> export U model onnx_args fs1)"

text \<open>Every file of the list converted in turn, whatever happened to the files before it.\<close>

fun outcomes ::
  "'m ultralytics \<Rightarrow> string list \<Rightarrow> filesys \<Rightarrow> (string \<times> (exn + string)) list" where
  "outcomes U [] fs = []"
| "outcomes U (name # rest) fs =
     (case convert_one U name fs of (r, fs') \<Rightarrow> (name, r) # outcomes U rest fs')"

fun final_files :: "'m ultralytics \<Rightarrow> string list \<Rightarrow> filesys \<Rightarrow> filesys" where
  "final_files U [] fs = fs"
| "final_files U (name # rest) fs = final_files U rest (snd (convert_one U name fs))"

fun successes :: "(string \<times> (exn + string)) list \<Rightarrow> (string \<times> string) list" where
  "successes [] = []"
| "successes ((name, Inr p) # rest) = (name, p) # successes rest"
| "successes ((name, Inl e) # rest) = successes rest"

fun failures :: "(string \<times> (exn + string)) list \<Rightarrow> (string \<times> string) list" where
  "failures [] = []"
| "failures ((name, Inr p) # rest) = failures rest"
| "failures ((name, Inl e) # rest) = (name, str_exn e) # failures rest"

text \<open>The lines the loop prints for these outcomes, and the summary after it.\<close>

fun loop_lines :: "(string \<times> (exn + string)) list \<Rightarrow> cline list" where
  "loop_lines [] = []"
| "loop_lines ((name, Inr p) # rest) =
     [Converting name, Converted name, OnnxFile p] @ loop_lines rest"
| "loop_lines ((name, Inl e) # rest) =
     [Converting name, FailedToConvert name (str_exn e)] @ loop_lines rest"

definition success_row :: "filesys \<Rightarrow> string \<times> string \<Rightarrow> cline" where
  "success_row fs = (\<lambda>(original, onnx_path).
     SuccessRow original onnx_path (map_option (format_1f \<circ> div_mib) (os_stat fs onnx_path)))"

definition failure_row :: "string \<times> string \<Rightarrow> cline" where
  "failure_row = (\<lambda>(original, error). FailureRow original error)"

definition summary_lines ::
  "filesys \<Rightarrow> (string \<times> string) list \<Rightarrow> (string \<times> string) list \<Rightarrow> cline list" where
  "summary_lines fs s f =
     [Summary, SuccessfulCount (length s), FailedCount (length f)]
     @ (if s \<noteq> [] then SuccessHeader # map (success_row fs) s else [])
     @ (if f \<noteq> [] then FailureHeader # map failure_row f else [])"

text \<open>What a trace and an output show: the paths loaded, the configurations exported
  with, the names in the rows of the two closing lists.\<close>

fun loads :: "'m call list \<Rightarrow> string list" where
  "loads [] = []"
| "loads (YOLO_call p # rest) = p # loads rest"
| "loads (export_call m a # rest) = loads rest"

fun exports :: "'m call list \<Rightarrow> export_args list" where
  "exports [] = []"
| "exports (YOLO_call p # rest) = exports rest"
| "exports (export_call m a # rest) = a # exports rest"

fun success_names :: "cline list \<Rightarrow> string list" where
  "success_names [] = []"
| "success_names (SuccessRow original onnx_path sz # rest) = original # success_names rest"
| "success_names (l # rest) = success_names rest"

fun failure_rows :: "cline list \<Rightarrow> (string \<times> string) list" where
  "failure_rows [] = []"
| "failure_rows (FailureRow original error # rest) = (original, error) # failure_rows rest"
| "failure_rows (l # rest) = failure_rows rest"

text \<open>
  The report the verifier is expected to print for a file of \<open>bytes\<close> bytes: its name
  and size, then the error of the parse, or the opset, the first declared input and every
  declared output numbered from 1, then an empty line.
\<close>

definition is_input :: "vline \<Rightarrow> bool" where
  "is_input l = (case l of Input n shape \<Rightarrow> True | _ \<Rightarrow> False)"

definition is_output :: "vline \<Rightarrow> bool" where
  "is_output l = (case l of Output i n shape \<Rightarrow> True | _ \<Rightarrow> False)"

definition input_line :: "value_info \<Rightarrow> vline" where
  "input_line t = Input (PyStr (vi_name t)) (PyList (map PyInt (vi_dims t)))"

definition output_line :: "nat \<times> value_info \<Rightarrow> vline" where
  "output_line = (\<lambda>(i, t). Output (i + 1) (PyStr (vi_name t)) (PyList (map PyInt (vi_dims t))))"

definition opset_value :: "model_proto \<Rightarrow> pyval" where
  "opset_value model =
     (case opset_import model of [] \<Rightarrow> PyStr ''Unknown'' | version # _ \<Rightarrow> PyInt version)"

definition analysis_lines :: "exn + model_proto \<Rightarrow> vline list" where
  "analysis_lines r =
     (case r of
        Inl e \<Rightarrow> [AnalyzeError (PyStr (str_exn e))]
      | Inr model \<Rightarrow>
          [Opset (opset_value model)]
          @ (case graph_input model of [] \<Rightarrow> [] | t # _ \<Rightarrow> [input_line t])
          @ map output_line (enumerate 0 (graph_output model)))"

definition report_lines ::
  "(string \<Rightarrow> exn + model_proto) \<Rightarrow> nat \<Rightarrow> string \<Rightarrow> vline list" where
  "report_lines onnx_parse bytes file_name =
     [FileName file_name, Size (format_1f (div_mib bytes))]
     @ analysis_lines (onnx_parse (path_join checkpoints_dir file_name)) @ [Blank]"

text \<open>
  The size of an entry of the directory, the row of the reference table for a
  canonical name, and the whole output of a run of the verifier that \<open>stat\<close> does not
  stop.
\<close>

definition listed_bytes :: "filesys \<Rightarrow> string \<Rightarrow> nat" where
  "listed_bytes fs n =
     (case os_stat fs (path_join checkpoints_dir n) of None \<Rightarrow> 0 | Some bytes \<Rightarrow> bytes)"

definition table_line :: "filesys \<Rightarrow> string \<times> string \<Rightarrow> vline list" where
  "table_line fs = (\<lambda>(model_name, description).
     case os_stat fs (path_join checkpoints_dir model_name) of
       None \<Rightarrow> []
     | Some bytes \<Rightarrow> [TableRow model_name (format_1f (div_mib bytes)) ''~2-9M'' description])"

definition verify_lines :: "(string \<Rightarrow> exn + model_proto) \<Rightarrow> filesys \<Rightarrow> vline list" where
  "verify_lines onnx_parse fs =
     (let onnx_files = glob fs ''.onnx'' in
      if onnx_files = [] then [Title, DoubleRule, NoOnnx]
      else
        [Title, DoubleRule, FoundModels (length onnx_files)]
        @ concat (map (\<lambda>n. report_lines onnx_parse (listed_bytes fs n) n) (sort onnx_files))
        @ [TableTitle, SingleRule, TableHead, SingleRule]
        @ concat (map (table_line fs) model_info)
        @ closing_lines)"

section \<open>Sample runs\<close>

text \<open>
  A directory that lists \<open>b.pt\<close> before \<open>a.pt\<close>, and a library for which \<open>b.pt\<close> is
  corrupt and the export of \<open>a.pt\<close> writes \<open>a.onnx\<close>, 2.5 MiB, beside it.
\<close>

definition demo_lib :: "string ultralytics" where
  "demo_lib =
     \<lparr>YOLO = (\<lambda>p fs. (if p = ''checkpoints/b.pt'' then Inl (Exn ''RuntimeError'' ''corrupt'')
                        else Inr p, fs)),
      export = (\<lambda>m a fs.
         (Inr (take (length m - 2) m @ ''onnx''),
          fs\<lparr>checkpoints :=
               map_option (\<lambda>es. es @ [(drop 12 (take (length m - 2) m @ ''onnx''), Some 2621440)])
                 (checkpoints fs)\<rparr>))\<rparr>"

definition demo_fs :: filesys where
  "demo_fs = \<lparr>checkpoints = Some [(''b.pt'', Some 10), (''a.pt'', Some 20)], elsewhere = []\<rparr>"

definition missing_fs :: filesys where
  "missing_fs = \<lparr>checkpoints = None, elsewhere = []\<rparr>"

text \<open>
  A directory of exports: a segmentation model with one input and two outputs, a
  model that computes a constant and so declares no input, a file that does not parse,
  and a checkpoint. The parses stand for what \<open>onnx.load\<close> returns for them.
\<close>

definition demo_model :: model_proto where
  "demo_model =
     \<lparr>graph_input = [\<lparr>vi_name = ''images'', vi_dims = [1, 3, 640, 640], vi_elem_type = 1\<rparr>],
      graph_output = [\<lparr>vi_name = ''output0'', vi_dims = [1, 116, 8400], vi_elem_type = 1\<rparr>,
                      \<lparr>vi_name = ''output1'', vi_dims = [1, 32, 160, 160], vi_elem_type = 1\<rparr>],
      opset_import = [11]\<rparr>"

definition const_model :: model_proto where
  "const_model =
     \<lparr>graph_input = [],
      graph_output = [\<lparr>vi_name = ''value'', vi_dims = [1], vi_elem_type = 1\<rparr>],
      opset_import = [11]\<rparr>"

definition demo_onnx :: "string \<Rightarrow> exn + model_proto" where
  "demo_onnx p =
     (if p = ''checkpoints/yolov8n.onnx'' then Inr demo_model
      else if p = ''checkpoints/const.onnx'' then Inr const_model
      else Inl (Exn ''DecodeError'' ''Error parsing message''))"

definition demo_exports :: filesys where
  "demo_exports =
     \<lparr>checkpoints = Some [(''yolov8n.onnx'', Some 12792627), (''yolov8n.pt'', Some 6549796),
                           (''const.onnx'', Some 262144), (''broken.onnx'', Some 3)],
      elsewhere = []\<rparr>"

text \<open>
  Two more directories, each with the canonical \<open>yolo11n.onnx\<close>: one lists beside it
  \<open>best.onnx\<close>, a symbolic link whose target is gone; in the other the file is sparse
  and \<open>2^53 + 262145\<close> bytes long.
\<close>

definition dangling_exports :: filesys where
  "dangling_exports =
     \<lparr>checkpoints = Some [(''yolo11n.onnx'', Some 5613764), (''best.onnx'', None)],
      elsewhere = []\<rparr>"

definition sparse_exports :: filesys where
  "sparse_exports =
     \<lparr>checkpoints = Some [(''yolo11n.onnx'', Some 9007199255003137)], elsewhere = []\<rparr>"

section \<open>Floats and their rendering\<close>

lemma bit_length_le: "n < 2 ^ k \<Longrightarrow> bit_length n \<le> k"
proof (induction k arbitrary: n)
  case 0
  then show ?case by (simp add: bit_length.simps)
next
  case (Suc k)
  show ?case
  proof (cases "n = 0")
    case True
    then show ?thesis by (simp add: bit_length.simps)
  next
    case False
    from Suc.prems have "n div 2 < 2 ^ k" by simp
    from Suc.IH[OF this] False show ?thesis by (simp add: bit_length.simps[of n])
  qed
qed

lemma bit_length_gt: "2 ^ k \<le> n \<Longrightarrow> k < bit_length n"
proof (induction k arbitrary: n)
  case 0
  then show ?case by (simp add: bit_length.simps[of n])
next
  case (Suc k)
  from Suc.prems have a: "2 ^ k \<le> n div 2" by simp
  from Suc.prems have b: "n \<noteq> 0" by (cases "n = 0") simp_all
  from Suc.IH[OF a] b show ?case by (simp add: bit_length.simps[of n])
qed

lemma bit_length_eq: "2 ^ k \<le> n \<Longrightarrow> n < 2 ^ Suc k \<Longrightarrow> bit_length n = Suc k"
  using bit_length_le[of n "Suc k"] bit_length_gt[of k n] by simp

lemma round_half_even_near: "\<bar>of_int (round_half_even t) - t\<bar> \<le> 1 / 2"
proof -
  define q where "q = \<lfloor>t\<rfloor>"
  have b: "of_int q \<le> t" "t < of_int q + 1"
    unfolding q_def by linarith+
  show ?thesis
    using b unfolding round_half_even_def Let_def q_def[symmetric]
    by (auto simp: abs_le_iff)
qed

lemma format_1f_near: "\<bar>of_int (format_1f x) / 10 - x\<bar> \<le> 1 / 20"
proof -
  have "\<bar>of_int (format_1f x) - 10 * x\<bar> \<le> 1 / 2"
    unfolding format_1f_def by (rule round_half_even_near)
  then show ?thesis by (simp add: abs_le_iff field_simps)
qed

lemma div_mib_exact: "n < 2 ^ 53 \<Longrightarrow> div_mib n = of_nat n / 1048576"
  using bit_length_le[of n 53] by (simp add: div_mib_def)

lemma div_mib_near:
  assumes "n < 2 ^ 64"
  shows "\<bar>div_mib n - of_nat n / 1048576\<bar> \<le> 1 / 1024"
proof (cases "bit_length n \<le> 53")
  case True
  then show ?thesis by (simp add: div_mib_def)
next
  case False
  define j where "j = bit_length n - 53"
  have "bit_length n \<le> 64" using assms by (rule bit_length_le)
  then have j: "j \<le> 11" by (simp add: j_def)
  define p :: rat where "p = 2 ^ j"
  have p: "0 < p" "p \<le> 2048"
  proof -
    show "0 < p" by (simp add: p_def)
    have "(2::rat) ^ j \<le> 2 ^ 11" using j by (intro power_increasing) simp_all
    then show "p \<le> 2048" by (simp add: p_def)
  qed
  define y :: rat where "y = of_nat n / p"
  have "\<bar>of_int (round_half_even y) - y\<bar> \<le> 1 / 2" by (rule round_half_even_near)
  then have "\<bar>of_int (round_half_even y) - y\<bar> * p \<le> 1 / 2 * p"
    using p(1) by (intro mult_right_mono) simp_all
  moreover have "\<bar>of_int (round_half_even y) - y\<bar> * p = \<bar>of_int (round_half_even y) * p - of_nat n\<bar>"
  proof -
    have "(of_int (round_half_even y) - y) * p = of_int (round_half_even y) * p - of_nat n"
      using p(1) by (simp add: y_def left_diff_distrib)
    moreover have "\<bar>of_int (round_half_even y) - y\<bar> * p = \<bar>(of_int (round_half_even y) - y) * p\<bar>"
      using p(1) by (simp add: abs_mult)
    ultimately show ?thesis by simp
  qed
  ultimately have "\<bar>of_int (round_half_even y) * p - of_nat n\<bar> \<le> 1024"
    using p(2) by linarith
  then have "\<bar>(of_int (round_half_even y) * p - of_nat n) / 1048576\<bar> \<le> 1 / 1024"
    by (simp add: abs_le_iff)
  moreover have "div_mib n = of_int (round_half_even y) * p / 1048576"
    using False by (simp add: div_mib_def Let_def y_def p_def j_def)
  then have "div_mib n - of_nat n / 1048576 = (of_int (round_half_even y) * p - of_nat n) / 1048576"
    by (simp only: diff_divide_distrib)
  ultimately show ?thesis by (simp only:)
qed

lemma shown_near:
  assumes "n < 2 ^ 64"
  shows "\<bar>of_int (format_1f (div_mib n)) / 10 - (of_nat n / 1048576 :: rat)\<bar> \<le> 1 / 20 + 1 / 1024"
  using format_1f_near[of "div_mib n"] div_mib_near[OF assms] by linarith

section \<open>The converter's loop against the expected run\<close>

lemma print_simps [simp]:
  "files (print l w) = files w" "stdout (print l w) = stdout w @ [l]" "trace (print l w) = trace w"
  by (simp_all add: print_def)

lemma loads_append [simp]: "loads (xs @ ys) = loads xs @ loads ys"
  by (induction xs rule: loads.induct) auto

lemma exports_append [simp]: "exports (xs @ ys) = exports xs @ exports ys"
  by (induction xs rule: exports.induct) auto

lemma try_convert_Inl:
  assumes "try_convert U name s w = (Inl e, w')"
  shows "fst (convert_one U name (files w)) = Inl e"
    and "files w' = snd (convert_one U name (files w))"
    and "stdout w' = stdout w @ [Converting name]"
    and "loads (trace w') = loads (trace w) @ [path_join checkpoints_dir name]"
    and "set (exports (trace w')) \<subseteq> set (exports (trace w)) \<union> {onnx_args}"
  using assms
  by (auto simp: try_convert_def call_YOLO_def call_export_def convert_one_def
      split: prod.splits sum.splits)

lemma try_convert_Inr:
  assumes "try_convert U name s w = (Inr s', w')"
  shows "\<exists>p. fst (convert_one U name (files w)) = Inr p \<and> s' = s @ [(name, p)]
            \<and> stdout w' = stdout w @ [Converting name, Converted name, OnnxFile p]"
    and "files w' = snd (convert_one U name (files w))"
    and "loads (trace w') = loads (trace w) @ [path_join checkpoints_dir name]"
    and "set (exports (trace w')) \<subseteq> set (exports (trace w)) \<union> {onnx_args}"
  using assms
  by (auto simp: try_convert_def call_YOLO_def call_export_def convert_one_def
      split: prod.splits sum.splits)

lemma convert_loop_outcomes:
  "convert_loop U names s f w = (s', f', w') \<Longrightarrow>
     s' = s @ successes (outcomes U names (files w)) \<and>
     f' = f @ failures (outcomes U names (files w)) \<and>
     loads (trace w') = loads (trace w) @ map (path_join checkpoints_dir) names \<and>
     set (exports (trace w')) \<subseteq> set (exports (trace w)) \<union> {onnx_args}"
proof (induction names arbitrary: s f w)
  case Nil
  then show ?case by auto
next
  case (Cons name rest)
  obtain r w1 where t: "try_convert U name s w = (r, w1)" by (cases "try_convert U name s w")
  show ?case
  proof (cases r)
    case (Inl e)
    with t Cons.prems have
      "convert_loop U rest s (f @ [(name, str_exn e)]) (print (FailedToConvert name (str_exn e)) w1) = (s', f', w')"
      by simp
    from Cons.IH[OF this] try_convert_Inl[OF t[unfolded Inl]]
    show ?thesis by (auto simp: prod_eq_iff split: prod.splits)
  next
    case (Inr s1)
    with t Cons.prems have "convert_loop U rest s1 f w1 = (s', f', w')" by simp
    from Cons.IH[OF this] try_convert_Inr[OF t[unfolded Inr]]
    show ?thesis by (auto simp: prod_eq_iff split: prod.splits)
  qed
qed

lemma try_convert_exports:
  assumes "try_convert U name s w = (r, w')"
  shows "\<exists>k. exports (trace w') = exports (trace w) @ replicate k onnx_args \<and> k \<le> 1
            \<and> (case r of Inr _ \<Rightarrow> k = 1 | Inl _ \<Rightarrow> True)"
proof -
  have "exports (trace w') = exports (trace w) \<and> (\<exists>e. r = Inl e)
        \<or> exports (trace w') = exports (trace w) @ [onnx_args]"
    using assms
    by (auto simp: try_convert_def call_YOLO_def call_export_def split: prod.splits sum.splits)
  then show ?thesis
  proof
    assume "exports (trace w') = exports (trace w) \<and> (\<exists>e. r = Inl e)"
    then show ?thesis by (intro exI[of _ 0]) auto
  next
    assume "exports (trace w') = exports (trace w) @ [onnx_args]"
    then show ?thesis by (intro exI[of _ 1]) (auto split: sum.splits)
  qed
qed

lemma convert_loop_exports:
  "convert_loop U names s f w = (s', f', w') \<Longrightarrow>
     \<exists>k. exports (trace w') = exports (trace w) @ replicate k onnx_args
        \<and> length (successes (outcomes U names (files w))) \<le> k \<and> k \<le> length names"
proof (induction names arbitrary: s f w)
  case Nil
  then show ?case by auto
next
  case (Cons name rest)
  obtain r w1 where t: "try_convert U name s w = (r, w1)" by (cases "try_convert U name s w")
  from try_convert_exports[OF t] obtain k1 where
    k1: "exports (trace w1) = exports (trace w) @ replicate k1 onnx_args" "k1 \<le> 1"
        "case r of Inr _ \<Rightarrow> k1 = 1 | Inl _ \<Rightarrow> True"
    by blast
  show ?case
  proof (cases r)
    case (Inl e)
    with t Cons.prems have l:
      "convert_loop U rest s (f @ [(name, str_exn e)]) (print (FailedToConvert name (str_exn e)) w1) = (s', f', w')"
      by simp
    from Cons.IH[OF l] obtain k where
      k: "exports (trace w') = exports (trace w1) @ replicate k onnx_args"
         "length (successes (outcomes U rest (files w1))) \<le> k" "k \<le> length rest"
      by auto
    from try_convert_Inl[OF t[unfolded Inl]] have
      o: "fst (convert_one U name (files w)) = Inl e" "files w1 = snd (convert_one U name (files w))"
      by simp_all
    have "exports (trace w') = exports (trace w) @ replicate (k1 + k) onnx_args"
      using k(1) k1(1) by (simp add: replicate_add)
    moreover have "length (successes (outcomes U (name # rest) (files w))) \<le> k1 + k"
      using o k(2) by (auto split: prod.splits)
    moreover have "k1 + k \<le> length (name # rest)" using k1(2) k(3) by simp
    ultimately show ?thesis by blast
  next
    case (Inr s1)
    with t Cons.prems have l: "convert_loop U rest s1 f w1 = (s', f', w')" by simp
    from Cons.IH[OF l] obtain k where
      k: "exports (trace w') = exports (trace w1) @ replicate k onnx_args"
         "length (successes (outcomes U rest (files w1))) \<le> k" "k \<le> length rest"
      by auto
    from try_convert_Inr[OF t[unfolded Inr]] obtain p where
      o: "fst (convert_one U name (files w)) = Inr p" "files w1 = snd (convert_one U name (files w))"
      by auto
    from k1(3) Inr have k1': "k1 = 1" by simp
    have "exports (trace w') = exports (trace w) @ replicate (k1 + k) onnx_args"
      using k(1) k1(1) by (simp add: replicate_add)
    moreover have "length (successes (outcomes U (name # rest) (files w))) \<le> k1 + k"
      using o k(2) k1' by (auto split: prod.splits)
    moreover have "k1 + k \<le> length (name # rest)" using k1(2) k(3) by simp
    ultimately show ?thesis by blast
  qed
qed

lemma export_call_exports: "export_call m a \<in> set t \<Longrightarrow> a \<in> set (exports t)"
  by (induction t rule: exports.induct) auto

lemma convert_loop_world:
  "convert_loop U names s f w = (s', f', w') \<Longrightarrow>
     stdout w' = stdout w @ loop_lines (outcomes U names (files w)) \<and>
     files w' = final_files U names (files w)"
proof (induction names arbitrary: s f w)
  case Nil
  then show ?case by auto
next
  case (Cons name rest)
  obtain r w1 where t: "try_convert U name s w = (r, w1)" by (cases "try_convert U name s w")
  show ?case
  proof (cases r)
    case (Inl e)
    with t Cons.prems have
      "convert_loop U rest s (f @ [(name, str_exn e)]) (print (FailedToConvert name (str_exn e)) w1) = (s', f', w')"
      by simp
    from Cons.IH[OF this] try_convert_Inl[OF t[unfolded Inl]]
    show ?thesis by (auto simp: prod_eq_iff split: prod.splits)
  next
    case (Inr s1)
    with t Cons.prems have "convert_loop U rest s1 f w1 = (s', f', w')" by simp
    from Cons.IH[OF this] try_convert_Inr[OF t[unfolded Inr]]
    show ?thesis by (auto simp: prod_eq_iff split: prod.splits)
  qed
qed

lemma print_found_world [simp]:
  "stdout (print_found names w) = stdout w @ map FoundItem names"
  "files (print_found names w) = files w"
  "trace (print_found names w) = trace w"
  by (induction names arbitrary: w) auto

lemma print_successful_world [simp]:
  "stdout (print_successful s w) = stdout w @ map (success_row (files w)) s"
  "files (print_successful s w) = files w"
  "trace (print_successful s w) = trace w"
  by (induction s w rule: print_successful.induct) (auto simp: success_row_def)

lemma print_failed_world [simp]:
  "stdout (print_failed f w) = stdout w @ map failure_row f"
  "files (print_failed f w) = files w"
  "trace (print_failed f w) = trace w"
  by (induction f w rule: print_failed.induct) (auto simp: failure_row_def)

lemma start_simps [simp]:
  "files (start fs) = fs" "stdout (start fs) = []" "trace (start fs) = []"
  by (simp_all add: start_def)

lemma converter_main_missing:
  "\<not> dir_exists fs \<Longrightarrow>
     converter_main U fs = (1, \<lparr>files = fs, stdout = [DirNotFound checkpoints_dir], trace = []\<rparr>)"
  by (simp add: converter_main_def convert_checkpoints_to_onnx_def start_def print_def)

lemma converter_main_empty:
  "dir_exists fs \<Longrightarrow> glob fs ''.pt'' = [] \<Longrightarrow>
     converter_main U fs = (1, \<lparr>files = fs, stdout = [NoCheckpoints checkpoints_dir], trace = []\<rparr>)"
  by (simp add: converter_main_def convert_checkpoints_to_onnx_def start_def print_def)

lemma converter_main_run:
  assumes "dir_exists fs" and "glob fs ''.pt'' \<noteq> []"
    and "converter_main U fs = (status, w)"
  defines "names \<equiv> glob fs ''.pt''"
  defines "os \<equiv> outcomes U names fs"
  shows "status = (if failures os = [] then 0 else 1)"
    and "stdout w = [Found (length names)] @ map FoundItem names @ [Starting] @ loop_lines os
            @ summary_lines (final_files U names fs) (successes os) (failures os)"
    and "files w = final_files U names fs"
    and "loads (trace w) = map (path_join checkpoints_dir) names"
    and "set (exports (trace w)) \<subseteq> {onnx_args}"
proof -
  let ?w1 = "print Starting (print_found names (print (Found (length names)) (start fs)))"
  obtain s f w2 where l: "convert_loop U names [] [] ?w1 = (s, f, w2)"
    by (cases "convert_loop U names [] [] ?w1") auto
  note a = convert_loop_outcomes[OF l] and b = convert_loop_world[OF l]
  have st: "files ?w1 = fs" "stdout ?w1 = [Found (length names)] @ map FoundItem names @ [Starting]"
    "trace ?w1 = []"
    by simp_all
  from assms(1,2,3) l
  have w: "status = (if length f = 0 then 0 else 1)"
    "w = (let w3 = print (FailedCount (length f))
                            (print (SuccessfulCount (length s)) (print Summary w2));
                     w4 = (if s \<noteq> []
                           then print_successful s (print SuccessHeader w3) else w3);
                     w5 = (if f \<noteq> []
                           then print_failed f (print FailureHeader w4) else w4) in w5)"
    by (auto simp: converter_main_def convert_checkpoints_to_onnx_def names_def Let_def split: prod.splits)
  from a st have sf: "s = successes os" "f = failures os" by (simp_all add: os_def)
  show "status = (if failures os = [] then 0 else 1)" using w(1) sf by simp
  show "files w = final_files U names fs" using w(2) b st by (simp add: Let_def)
  show "loads (trace w) = map (path_join checkpoints_dir) names" using w(2) a st by (simp add: Let_def)
  show "set (exports (trace w)) \<subseteq> {onnx_args}" using w(2) a st by (simp add: Let_def)
  show "stdout w = [Found (length names)] @ map FoundItem names @ [Starting] @ loop_lines os
            @ summary_lines (final_files U names fs) (successes os) (failures os)"
    using w(2) b st sf by (simp add: Let_def summary_lines_def os_def)
qed

lemma converter_main_exports:
  assumes "dir_exists fs" and "glob fs ''.pt'' \<noteq> []"
    and "converter_main U fs = (status, w)"
  shows "length (successes (outcomes U (glob fs ''.pt'') fs)) \<le> length (exports (trace w))"
    and "length (exports (trace w)) \<le> length (glob fs ''.pt'')"
proof -
  let ?names = "glob fs ''.pt''"
  let ?w1 = "print Starting (print_found ?names (print (Found (length ?names)) (start fs)))"
  obtain s f w2 where l: "convert_loop U ?names [] [] ?w1 = (s, f, w2)"
    by (cases "convert_loop U ?names [] [] ?w1") auto
  from convert_loop_exports[OF l] obtain k where
    k: "exports (trace w2) = replicate k onnx_args"
       "length (successes (outcomes U ?names fs)) \<le> k" "k \<le> length ?names"
    by auto
  from assms l have "trace w = trace w2"
    by (auto simp: converter_main_def convert_checkpoints_to_onnx_def Let_def split: prod.splits)
  with k show "length (successes (outcomes U ?names fs)) \<le> length (exports (trace w))"
    and "length (exports (trace w)) \<le> length ?names"
    by simp_all
qed

lemma success_names_append [simp]: "success_names (xs @ ys) = success_names xs @ success_names ys"
  by (induction xs rule: success_names.induct) auto

lemma failure_rows_append [simp]: "failure_rows (xs @ ys) = failure_rows xs @ failure_rows ys"
  by (induction xs rule: failure_rows.induct) auto

lemma rows_found [simp]:
  "success_names (map FoundItem ns) = []" "failure_rows (map FoundItem ns) = []"
  by (induction ns) auto

lemma rows_loop_lines [simp]:
  "success_names (loop_lines os) = []" "failure_rows (loop_lines os) = []"
  by (induction os rule: loop_lines.induct) auto

lemma rows_success [simp]:
  "success_names (map (success_row fs) s) = map fst s" "failure_rows (map (success_row fs) s) = []"
  by (induction s) (auto simp: success_row_def)

lemma rows_failure [simp]:
  "success_names (map failure_row f) = []" "failure_rows (map failure_row f) = f"
  by (induction f) (auto simp: failure_row_def)

lemma rows_summary [simp]:
  "success_names (summary_lines fs s f) = map fst s"
  "failure_rows (summary_lines fs s f) = f"
  by (auto simp: summary_lines_def)

lemma counts_found [simp]:
  "SuccessfulCount a \<notin> set (map FoundItem ns)" "FailedCount b \<notin> set (map FoundItem ns)"
  by auto

lemma counts_loop_lines [simp]:
  "SuccessfulCount a \<notin> set (loop_lines os)" "FailedCount b \<notin> set (loop_lines os)"
  by (induction os rule: loop_lines.induct) auto

lemma counts_summary [simp]:
  "SuccessfulCount a \<in> set (summary_lines fs s f) \<longleftrightarrow> a = length s"
  "FailedCount b \<in> set (summary_lines fs s f) \<longleftrightarrow> b = length f"
  by (auto simp: summary_lines_def success_row_def failure_row_def)

lemma outcomes_names [simp]: "map fst (outcomes U names fs) = names"
  by (induction names arbitrary: fs) (auto split: prod.splits)

lemma outcomes_split:
  "mset (map fst (successes os)) + mset (map fst (failures os)) = mset (map fst os)"
  "length (successes os) + length (failures os) = length os"
  by (induction os rule: successes.induct) auto

lemma glob_missing [simp]: "\<not> dir_exists fs \<Longrightarrow> glob fs ext = []"
  by (simp add: dir_exists_def glob_def)

lemma outcomes_length [simp]: "length (outcomes U names fs) = length names"
  by (induction names arbitrary: fs) (auto split: prod.splits)

lemma path_join_inj: "inj (path_join d)"
  by (auto simp: inj_on_def path_join_def)

lemma converter_main_loads:
  "loads (trace (snd (converter_main U fs))) = map (path_join checkpoints_dir) (glob fs ''.pt'')"
proof -
  obtain status w where r: "converter_main U fs = (status, w)"
    by (cases "converter_main U fs")
  consider (missing) "\<not> dir_exists fs" | (empty) "dir_exists fs" "glob fs ''.pt'' = []"
    | (run) "dir_exists fs" "glob fs ''.pt'' \<noteq> []"
    by blast
  then show ?thesis
  proof cases
    case missing
    with r converter_main_missing[OF missing, of U] show ?thesis by auto
  next
    case empty
    with r converter_main_empty[OF empty, of U] show ?thesis by auto
  next
    case run
    from converter_main_run(4)[OF run r] r show ?thesis by simp
  qed
qed

section \<open>The sample runs, evaluated\<close>

lemma demo_glob: "glob demo_fs ''.pt'' = [''b.pt'', ''a.pt'']"
  by code_simp

lemma demo_outcomes:
  "outcomes demo_lib [''b.pt'', ''a.pt''] demo_fs =
     [(''b.pt'', Inl (Exn ''RuntimeError'' ''corrupt'')), (''a.pt'', Inr ''checkpoints/a.onnx'')]"
  by (simp add: convert_one_def demo_lib_def path_join_def checkpoints_dir_def)

lemma demo_final:
  "final_files demo_lib [''b.pt'', ''a.pt''] demo_fs =
     \<lparr>checkpoints = Some [(''b.pt'', Some 10), (''a.pt'', Some 20), (''a.onnx'', Some 2621440)],
      elsewhere = []\<rparr>"
  by (simp add: convert_one_def demo_lib_def demo_fs_def path_join_def checkpoints_dir_def)

lemma demo_size:
  "os_stat \<lparr>checkpoints = Some [(''b.pt'', Some 10), (''a.pt'', Some 20), (''a.onnx'', Some 2621440)],
            elsewhere = []\<rparr> ''checkpoints/a.onnx'' = Some 2621440"
  "format_1f (div_mib 2621440) = 25"
proof -
  show "os_stat \<lparr>checkpoints = Some [(''b.pt'', Some 10), (''a.pt'', Some 20), (''a.onnx'', Some 2621440)],
            elsewhere = []\<rparr> ''checkpoints/a.onnx'' = Some 2621440"
    by (simp add: os_stat_def path_join_def checkpoints_dir_def)
  have "div_mib 2621440 = 5 / 2" by (simp add: div_mib_exact)
  then show "format_1f (div_mib 2621440) = 25"
    by (simp only: format_1f_def round_half_even_def Let_def) simp
qed

lemma demo_exists: "dir_exists demo_fs"
  by (simp add: dir_exists_def demo_fs_def)

lemma demo_run:
  "fst (converter_main demo_lib demo_fs) = 1"
  "stdout (snd (converter_main demo_lib demo_fs)) =
     [Found 2, FoundItem ''b.pt'', FoundItem ''a.pt'', Starting,
      Converting ''b.pt'', FailedToConvert ''b.pt'' ''corrupt'',
      Converting ''a.pt'', Converted ''a.pt'', OnnxFile ''checkpoints/a.onnx'',
      Summary, SuccessfulCount 1, FailedCount 1,
      SuccessHeader, SuccessRow ''a.pt'' ''checkpoints/a.onnx'' (Some 25),
      FailureHeader, FailureRow ''b.pt'' ''corrupt'']"
  "loads (trace (snd (converter_main demo_lib demo_fs))) = [''checkpoints/b.pt'', ''checkpoints/a.pt'']"
proof -
  obtain status w where r: "converter_main demo_lib demo_fs = (status, w)"
    by (cases "converter_main demo_lib demo_fs")
  have g: "glob demo_fs ''.pt'' \<noteq> []" by (simp add: demo_glob)
  note f = converter_main_run[OF demo_exists g r, unfolded demo_glob demo_outcomes demo_final]
  show "fst (converter_main demo_lib demo_fs) = 1" using f(1) r by simp
  show "stdout (snd (converter_main demo_lib demo_fs)) =
     [Found 2, FoundItem ''b.pt'', FoundItem ''a.pt'', Starting,
      Converting ''b.pt'', FailedToConvert ''b.pt'' ''corrupt'',
      Converting ''a.pt'', Converted ''a.pt'', OnnxFile ''checkpoints/a.onnx'',
      Summary, SuccessfulCount 1, FailedCount 1,
      SuccessHeader, SuccessRow ''a.pt'' ''checkpoints/a.onnx'' (Some 25),
      FailureHeader, FailureRow ''b.pt'' ''corrupt'']"
    using f(2) r by (simp add: summary_lines_def success_row_def failure_row_def demo_size)
  show "loads (trace (snd (converter_main demo_lib demo_fs))) = [''checkpoints/b.pt'', ''checkpoints/a.pt'']"
    using f(4) r by (simp add: path_join_def checkpoints_dir_def)
qed

lemma demo_loop:
  "convert_loop demo_lib [''b.pt'', ''a.pt''] [] [] w =
     ([(''a.pt'', ''checkpoints/a.onnx'')], [(''b.pt'', ''corrupt'')],
      w\<lparr>files := snd (export demo_lib ''checkpoints/a.pt'' onnx_args (files w)),
         stdout := stdout w @ [Converting ''b.pt'', FailedToConvert ''b.pt'' ''corrupt'',
                    Converting ''a.pt'', Converted ''a.pt'', OnnxFile ''checkpoints/a.onnx''],
         trace := trace w @ [YOLO_call ''checkpoints/b.pt'', YOLO_call ''checkpoints/a.pt'',
                   export_call ''checkpoints/a.pt'' onnx_args]\<rparr>)"
  by (simp add: try_convert_def call_YOLO_def call_export_def print_def demo_lib_def
      path_join_def checkpoints_dir_def)

lemma demo_trace:
  "trace (snd (converter_main demo_lib demo_fs)) =
     [YOLO_call ''checkpoints/b.pt'', YOLO_call ''checkpoints/a.pt'',
      export_call ''checkpoints/a.pt'' onnx_args]"
  by (simp add: converter_main_def convert_checkpoints_to_onnx_def demo_glob demo_exists
      demo_loop Let_def del: convert_loop.simps)

lemma demo_sort: "sort [''b.pt'', ''a.pt''] = [''a.pt'', ''b.pt'']"
  by code_simp

section \<open>Properties of the converter\<close>

text \<open>
  Claim C8. When the directory \<open>checkpoints\<close> does not exist, the converter prints
  that it was not found and ends with exit status 1: the file system is the one it
  started with, and neither \<open>YOLO\<close> nor \<open>export\<close> was called.
\<close>

theorem missing_directory_exits_1_without_action:
  "\<not> dir_exists fs \<Longrightarrow>
     converter_main U fs =
       (1, \<lparr>files = fs, stdout = [DirNotFound ''checkpoints''], trace = []\<rparr>)"
  by (simp add: converter_main_def convert_checkpoints_to_onnx_def start_def print_def
      checkpoints_dir_def)

theorem missing_directory_witness:
  "\<not> dir_exists missing_fs \<and>
   converter_main demo_lib missing_fs =
     (1, \<lparr>files = missing_fs, stdout = [DirNotFound ''checkpoints''], trace = []\<rparr>)"
proof -
  have h: "\<not> dir_exists missing_fs" by (simp add: dir_exists_def missing_fs_def)
  from h missing_directory_exits_1_without_action[OF h, of demo_lib] show ?thesis by simp
qed

text \<open>
  Claim C1. The exit status of the converter is 0 or 1. It is 0 exactly when the
  failure count the run prints is zero; a count is printed only by a run that found
  the directory and at least one checkpoint, and it is the number of files whose load
  or export raised. The status is 1 exactly when the directory is missing, no
  checkpoint is found, or a conversion failed.
\<close>

theorem converter_exit_status:
  "case converter_main U fs of (status, w) \<Rightarrow>
     (status = 0 \<or> status = 1) \<and>
     (status = 0 \<longleftrightarrow> FailedCount 0 \<in> set (stdout w)) \<and>
     (\<forall>n. FailedCount n \<in> set (stdout w) \<longleftrightarrow>
          dir_exists fs \<and> glob fs ''.pt'' \<noteq> [] \<and>
          n = length (failures (outcomes U (glob fs ''.pt'') fs))) \<and>
     (status = 1 \<longleftrightarrow>
        \<not> dir_exists fs \<or> glob fs ''.pt'' = [] \<or>
        failures (outcomes U (glob fs ''.pt'') fs) \<noteq> [])"
proof -
  obtain status w where r: "converter_main U fs = (status, w)"
    by (cases "converter_main U fs")
  consider (missing) "\<not> dir_exists fs" | (empty) "dir_exists fs" "glob fs ''.pt'' = []"
    | (run) "dir_exists fs" "glob fs ''.pt'' \<noteq> []"
    by blast
  then have
    "(status = 0 \<or> status = 1) \<and>
     (status = 0 \<longleftrightarrow> FailedCount 0 \<in> set (stdout w)) \<and>
     (\<forall>n. FailedCount n \<in> set (stdout w) \<longleftrightarrow>
          dir_exists fs \<and> glob fs ''.pt'' \<noteq> [] \<and>
          n = length (failures (outcomes U (glob fs ''.pt'') fs))) \<and>
     (status = 1 \<longleftrightarrow>
        \<not> dir_exists fs \<or> glob fs ''.pt'' = [] \<or>
        failures (outcomes U (glob fs ''.pt'') fs) \<noteq> [])"
  proof cases
    case missing
    with r converter_main_missing[OF missing, of U] show ?thesis by auto
  next
    case empty
    with r converter_main_empty[OF empty, of U] show ?thesis by auto
  next
    case run
    note f = converter_main_run[OF run r]
    show ?thesis using run f(1) by (auto simp: f(2))
  qed
  with r show ?thesis by auto
qed

theorem converter_exit_status_witness:
  "(case converter_main demo_lib demo_fs of (status, w) \<Rightarrow>
      status = 1 \<and> FailedCount 1 \<in> set (stdout w) \<and> FailedCount 0 \<notin> set (stdout w)) \<and>
   (case converter_main demo_lib missing_fs of (status, w) \<Rightarrow>
      status = 1 \<and> (\<forall>n. FailedCount n \<notin> set (stdout w)))"
proof -
  have "\<not> dir_exists missing_fs" by (simp add: dir_exists_def missing_fs_def)
  with converter_exit_status[where U=demo_lib and fs=demo_fs]
    converter_exit_status[where U=demo_lib and fs=missing_fs]
    demo_run(1,2) demo_exists demo_glob demo_outcomes
  show ?thesis by (auto split: prod.splits)
qed

text \<open>
  Claim C2. Every discovered checkpoint is in exactly one of the two closing lists:
  the names of the successful rows together with the names of the failed rows are the
  discovered names, each as often as it was discovered. The two counts the summary
  prints are the lengths of these lists and add up to the number of discovered files,
  which is the number the run announced; a run that reaches the loop prints both.
\<close>

theorem every_checkpoint_recorded_once:
  "case converter_main U fs of (status, w) \<Rightarrow>
     mset (success_names (stdout w)) + mset (map fst (failure_rows (stdout w)))
       = mset (glob fs ''.pt'') \<and>
     (\<forall>a b. SuccessfulCount a \<in> set (stdout w) \<and> FailedCount b \<in> set (stdout w)
        \<longrightarrow> a = length (success_names (stdout w)) \<and> b = length (failure_rows (stdout w))
            \<and> a + b = length (glob fs ''.pt'')) \<and>
     (dir_exists fs \<and> glob fs ''.pt'' \<noteq> [] \<longrightarrow>
        (\<exists>a b. SuccessfulCount a \<in> set (stdout w) \<and> FailedCount b \<in> set (stdout w)) \<and>
        Found (length (glob fs ''.pt'')) \<in> set (stdout w))"
proof -
  obtain status w where r: "converter_main U fs = (status, w)"
    by (cases "converter_main U fs")
  let ?names = "glob fs ''.pt''"
  let ?os = "outcomes U ?names fs"
  consider (missing) "\<not> dir_exists fs" | (empty) "dir_exists fs" "?names = []"
    | (run) "dir_exists fs" "?names \<noteq> []"
    by blast
  then have
    "mset (success_names (stdout w)) + mset (map fst (failure_rows (stdout w))) = mset ?names \<and>
     (\<forall>a b. SuccessfulCount a \<in> set (stdout w) \<and> FailedCount b \<in> set (stdout w)
        \<longrightarrow> a = length (success_names (stdout w)) \<and> b = length (failure_rows (stdout w))
            \<and> a + b = length ?names) \<and>
     (dir_exists fs \<and> ?names \<noteq> [] \<longrightarrow>
        (\<exists>a b. SuccessfulCount a \<in> set (stdout w) \<and> FailedCount b \<in> set (stdout w)) \<and>
        Found (length ?names) \<in> set (stdout w))"
  proof cases
    case missing
    with r converter_main_missing[OF missing, of U] show ?thesis by auto
  next
    case empty
    with r converter_main_empty[OF empty, of U] show ?thesis by auto
  next
    case run
    note f = converter_main_run[OF run r]
    have m: "mset (map fst (successes ?os)) + mset (map fst (failures ?os)) = mset ?names"
      and l: "length (successes ?os) + length (failures ?os) = length ?names"
      using outcomes_split[of ?os] by simp_all
    show ?thesis using m l by (auto simp: f(2))
  qed
  with r show ?thesis by auto
qed

theorem every_checkpoint_recorded_once_witness:
  "case converter_main demo_lib demo_fs of (status, w) \<Rightarrow>
     dir_exists demo_fs \<and> glob demo_fs ''.pt'' = [''b.pt'', ''a.pt''] \<and>
     SuccessfulCount 1 \<in> set (stdout w) \<and> FailedCount 1 \<in> set (stdout w) \<and>
     Found 2 \<in> set (stdout w) \<and>
     success_names (stdout w) = [''a.pt''] \<and> map fst (failure_rows (stdout w)) = [''b.pt'']"
  using every_checkpoint_recorded_once[where U=demo_lib and fs=demo_fs]
    demo_run(2) demo_exists demo_glob
  by (auto split: prod.splits)

text \<open>
  Claim C3. The loop handles the exception of a file at that file: the failed list
  grows by the pair of the file's name and \<open>str(e)\<close> for exactly the files whose load or
  export raised, the successful list by the others, and every file of the list is
  loaded, in order, whatever happened to the files before it.
\<close>

theorem failure_is_recorded_and_the_loop_goes_on:
  "case convert_loop U names successful failed w of (successful', failed', w') \<Rightarrow>
     failed' = failed @ failures (outcomes U names (files w)) \<and>
     successful' = successful @ successes (outcomes U names (files w)) \<and>
     map fst (outcomes U names (files w)) = names \<and>
     loads (trace w') = loads (trace w) @ map (path_join checkpoints_dir) names \<and>
     (\<forall>i < length names. path_join checkpoints_dir (names ! i) \<in> set (loads (trace w')))"
proof -
  obtain s' f' w' where l: "convert_loop U names successful failed w = (s', f', w')"
    by (cases "convert_loop U names successful failed w") auto
  note a = convert_loop_outcomes[OF l]
  have "\<forall>i < length names. path_join checkpoints_dir (names ! i) \<in> set (loads (trace w'))"
    using a by auto
  with a l show ?thesis by simp
qed

theorem failure_is_recorded_witness:
  "case convert_loop demo_lib [''b.pt'', ''a.pt''] [] [] (start demo_fs) of
     (successful', failed', w') \<Rightarrow>
       failed' = [(''b.pt'', ''corrupt'')] \<and>
       successful' = [(''a.pt'', ''checkpoints/a.onnx'')] \<and>
       loads (trace w') = [''checkpoints/b.pt'', ''checkpoints/a.pt'']"
  using failure_is_recorded_and_the_loop_goes_on
          [where U=demo_lib and names="[''b.pt'', ''a.pt'']" and successful="[]" and failed="[]"
             and w="start demo_fs"]
    demo_outcomes
  by (auto split: prod.splits simp: path_join_def checkpoints_dir_def)

text \<open>
  Claim C4 as stated, that the files are attempted in lexically sorted order, fails:
  the script does not sort what \<open>glob\<close> yields. A directory that lists \<open>b.pt\<close> before
  \<open>a.pt\<close> has \<open>b.pt\<close> loaded first.
\<close>

theorem attempts_not_sorted_counterexample:
  "loads (trace (snd (converter_main demo_lib demo_fs)))
     \<noteq> map (path_join checkpoints_dir) (sort (glob demo_fs ''.pt''))"
  by (simp add: demo_run(3) demo_glob demo_sort path_join_def checkpoints_dir_def)

text \<open>
  Claim C4, amended. The files are attempted in the order the directory lists the
  names that end in \<open>.pt\<close>, which is the order \<open>glob\<close> yields them in; that is the
  lexically sorted order exactly when the listing of these names is already sorted.
\<close>

theorem attempts_follow_the_directory_listing:
  "loads (trace (snd (converter_main U fs)))
     = map (path_join checkpoints_dir)
         (case checkpoints fs of None \<Rightarrow> []
          | Some entries \<Rightarrow> filter (ends_with ''.pt'') (map fst entries)) \<and>
   (loads (trace (snd (converter_main U fs)))
      = map (path_join checkpoints_dir) (sort (glob fs ''.pt''))
    \<longleftrightarrow> sorted (glob fs ''.pt''))"
proof
  show "loads (trace (snd (converter_main U fs)))
     = map (path_join checkpoints_dir)
         (case checkpoints fs of None \<Rightarrow> []
          | Some entries \<Rightarrow> filter (ends_with ''.pt'') (map fst entries))"
    by (simp only: converter_main_loads glob_def)
next
  have "loads (trace (snd (converter_main U fs)))
          = map (path_join checkpoints_dir) (sort (glob fs ''.pt''))
        \<longleftrightarrow> glob fs ''.pt'' = sort (glob fs ''.pt'')"
    by (simp only: converter_main_loads inj_map_eq_map[OF path_join_inj])
  also have "\<dots> \<longleftrightarrow> sorted (glob fs ''.pt'')"
    by (metis sorted_sort sorted_sort_id)
  finally show "loads (trace (snd (converter_main U fs)))
      = map (path_join checkpoints_dir) (sort (glob fs ''.pt''))
    \<longleftrightarrow> sorted (glob fs ''.pt'')" .
qed

theorem attempts_follow_the_directory_listing_witness:
  "loads (trace (snd (converter_main demo_lib demo_fs))) = [''checkpoints/b.pt'', ''checkpoints/a.pt'']
   \<and> checkpoints demo_fs = Some [(''b.pt'', Some 10), (''a.pt'', Some 20)]
   \<and> \<not> sorted (glob demo_fs ''.pt'')"
proof -
  have "\<not> sorted (glob demo_fs ''.pt'')"
    using attempts_follow_the_directory_listing[where U=demo_lib and fs=demo_fs]
    by (simp add: demo_run(3) demo_glob demo_sort path_join_def checkpoints_dir_def)
  moreover have "checkpoints demo_fs = Some [(''b.pt'', Some 10), (''a.pt'', Some 20)]"
    by (simp add: demo_fs_def)
  ultimately show ?thesis using demo_run(3) by simp
qed

text \<open>
  Claim C5. Every call of \<open>export\<close> the converter makes passes the same
  configuration: format \<open>onnx\<close>, image size 640, \<open>optimize\<close> on, \<open>half\<close> off,
  \<open>dynamic\<close> off, \<open>simplify\<close> on, opset 11. Each converted file went through such
  a call, and no more calls are made than files were found.
\<close>

theorem export_uses_the_fixed_configuration:
  "case converter_main U fs of (status, w) \<Rightarrow>
     (\<forall>m a. export_call m a \<in> set (trace w) \<longrightarrow>
        a = \<lparr>format = ''onnx'', imgsz = 640, optimize = True, half = False,
              dynamic = False, simplify = True, opset = 11\<rparr>) \<and>
     length (success_names (stdout w)) \<le> length (exports (trace w)) \<and>
     length (exports (trace w)) \<le> length (glob fs ''.pt'')"
proof -
  obtain status w where r: "converter_main U fs = (status, w)"
    by (cases "converter_main U fs")
  consider (missing) "\<not> dir_exists fs" | (empty) "dir_exists fs" "glob fs ''.pt'' = []"
    | (run) "dir_exists fs" "glob fs ''.pt'' \<noteq> []"
    by blast
  then have
    "(\<forall>m a. export_call m a \<in> set (trace w) \<longrightarrow> a = onnx_args) \<and>
     length (success_names (stdout w)) \<le> length (exports (trace w)) \<and>
     length (exports (trace w)) \<le> length (glob fs ''.pt'')"
  proof cases
    case missing
    with r converter_main_missing[OF missing, of U] show ?thesis by auto
  next
    case empty
    with r converter_main_empty[OF empty, of U] show ?thesis by auto
  next
    case run
    note f = converter_main_run[OF run r] and e = converter_main_exports[OF run r]
    have "a = onnx_args" if "export_call m a \<in> set (trace w)" for m a
      using export_call_exports[OF that] f(5) by auto
    then show ?thesis using e by (auto simp: f(2))
  qed
  with r show ?thesis by (simp add: onnx_args_def)
qed

theorem export_uses_the_fixed_configuration_witness:
  "case converter_main demo_lib demo_fs of (status, w) \<Rightarrow>
     success_names (stdout w) = [''a.pt''] \<and>
     exports (trace w) =
       [\<lparr>format = ''onnx'', imgsz = 640, optimize = True, half = False,
         dynamic = False, simplify = True, opset = 11\<rparr>]"
  using export_uses_the_fixed_configuration[where U=demo_lib and fs=demo_fs]
    demo_run(2) demo_trace
  by (auto split: prod.splits simp: onnx_args_def)

section \<open>The verifier against the expected output\<close>

lemma py_simps [simp]:
  "py_bind (py_lift (Inr v)) f = f v"
  "py_bind (py_lift (Inl e)) f = (Inl e, [])"
  "py_bind (py_return v) f = f v"
  "py_bind (py_print l) g = (case g () of (r, out) \<Rightarrow> (r, l # out))"
  "py_seq m n = py_bind m (\<lambda>_. n)"
  "py_bind (Inr v, out) f = (case f v of (r, out') \<Rightarrow> (r, out @ out'))"
  by (simp_all add: py_bind_def py_lift_def py_return_def py_print_def py_seq_def split: prod.splits)

lemma tensor_dict_items [simp]:
  "py_getitem (tensor_dict t) ''name'' = Inr (PyStr (vi_name t))"
  "py_getitem (tensor_dict t) ''shape'' = Inr (PyList (map PyInt (vi_dims t)))"
  "py_getitem (tensor_dict t) ''dtype'' = Inr (PyInt (vi_elem_type t))"
  by (simp_all add: tensor_dict_def dict_getitem_def)

lemma print_output_tensor [simp]:
  "print_output i (tensor_dict t) = (Inr (), [output_line (i, t)])"
  by (simp add: print_output_def output_line_def py_print_def)

lemma print_outputs_from_tensors:
  "print_outputs_from i (map tensor_dict ts) = (Inr (), map output_line (enumerate i ts))"
  by (induction ts arbitrary: i) (simp_all add: py_return_def)

lemma analyze_cases:
  "analyze_onnx_model onnx_parse fs p =
     Inr (case onnx_load onnx_parse fs p of
            Inl e \<Rightarrow> [(''error'', PyStr (str_exn e))]
          | Inr model \<Rightarrow>
              [(''inputs'', PyList (map tensor_dict (graph_input model))),
               (''outputs'', PyList (map tensor_dict (graph_output model))),
               (''opset_version'', opset_value model)])"
  by (simp add: analyze_onnx_model_def analyze_try_def opset_value_def split: sum.splits)

lemma print_input_model:
  "print_input [(''inputs'', PyList (map tensor_dict ins)), (''outputs'', outs), (''opset_version'', v)]
     = (Inr (), case ins of [] \<Rightarrow> [] | t # _ \<Rightarrow> [input_line t])"
  by (cases ins) (simp_all add: print_input_def dict_getitem_def input_line_def py_return_def py_print_def)

lemma print_outputs_model:
  "print_outputs [(''inputs'', ins), (''outputs'', PyList (map tensor_dict outs)), (''opset_version'', v)]
     = (Inr (), map output_line (enumerate 0 outs))"
  by (cases "outs = []")
     (simp_all add: print_outputs_def dict_getitem_def py_return_def print_outputs_from_tensors
        del: print_outputs_from.simps)

lemma os_stat_in_dir [simp]:
  "os_stat fs (path_join checkpoints_dir n) =
     (case checkpoints fs of
        None \<Rightarrow> None
      | Some entries \<Rightarrow>
          (case map_of entries n of Some (Some st_size) \<Rightarrow> Some (unat st_size) | _ \<Rightarrow> None))"
  by (simp add: os_stat_def path_join_def checkpoints_dir_def Let_def split: option.splits)

lemma os_stat_entry:
  "os_stat fs (path_join checkpoints_dir n) = Some b \<longleftrightarrow>
     (\<exists>entries w. checkpoints fs = Some entries \<and> map_of entries n = Some (Some w) \<and> b = unat w)"
  by (auto split: option.splits)

lemma report_file_present:
  assumes "os_stat fs (path_join checkpoints_dir n) = Some bytes"
  shows "report_file onnx_parse fs n = (Inr (), report_lines onnx_parse bytes n)"
proof -
  have l: "onnx_load onnx_parse fs (path_join checkpoints_dir n)
             = onnx_parse (path_join checkpoints_dir n)"
    using assms by (simp add: onnx_load_def del: os_stat_in_dir)
  show ?thesis
  proof (cases "onnx_parse (path_join checkpoints_dir n)")
    case (Inl e)
    then show ?thesis using assms
      by (simp add: report_file_def get_file_size_mb_def os_path_getsize_def analyze_cases l
          report_lines_def analysis_lines_def dict_getitem_def py_print_def
          del: os_stat_in_dir)
  next
    case (Inr model)
    then show ?thesis using assms
      by (simp add: report_file_def get_file_size_mb_def os_path_getsize_def analyze_cases l
          report_lines_def analysis_lines_def dict_getitem_def py_print_def
          print_input_model print_outputs_model del: os_stat_in_dir)
  qed
qed

lemma report_file_dangling:
  assumes "os_stat fs (path_join checkpoints_dir n) = None"
  shows "report_file onnx_parse fs n =
           (Inl (Exn ''FileNotFoundError'' (path_join checkpoints_dir n)), [FileName n])"
  using assms
  by (simp add: report_file_def get_file_size_mb_def os_path_getsize_def py_print_def
      del: os_stat_in_dir)

lemma table_rows_eq: "table_rows fs info = (Inr (), concat (map (table_line fs) info))"
proof (induction info)
  case Nil
  then show ?case by (simp add: py_return_def)
next
  case (Cons entry rest)
  obtain n d where e: "entry = (n, d)" by (cases entry)
  show ?case
    by (cases "os_stat fs (path_join checkpoints_dir n)")
       (simp_all add: e Cons table_row_def table_line_def os_path_exists_def get_file_size_mb_def
          os_path_getsize_def py_return_def py_print_def del: os_stat_in_dir)
qed

lemma glob_listed:
  assumes "n \<in> set (glob fs ext)" and "os_path_exists fs (path_join checkpoints_dir n)"
  shows "os_stat fs (path_join checkpoints_dir n) = Some (listed_bytes fs n)"
  using assms(2) by (auto simp: listed_bytes_def os_path_exists_def simp del: os_stat_in_dir)

lemma glob_entry:
  assumes "checkpoints fs = Some entries" and "map_of entries n \<noteq> None" and "ends_with ext n"
  shows "n \<in> set (glob fs ext)"
proof -
  from assms(2) have "n \<in> fst ` set entries" by (simp add: map_of_eq_None_iff)
  with assms(1,3) show ?thesis by (auto simp: glob_def)
qed

lemma report_files_eq:
  "\<forall>n \<in> set names. os_stat fs (path_join checkpoints_dir n) = Some (listed_bytes fs n) \<Longrightarrow>
     report_files onnx_parse fs names =
       (Inr (), concat (map (\<lambda>n. report_lines onnx_parse (listed_bytes fs n) n) names))"
proof (induction names)
  case Nil
  then show ?case by (simp add: py_return_def)
next
  case (Cons n rest)
  then have "report_file onnx_parse fs n = (Inr (), report_lines onnx_parse (listed_bytes fs n) n)"
    by (intro report_file_present) simp
  with Cons show ?case by simp
qed

lemma verify_eq:
  assumes "\<forall>n \<in> set (glob fs ''.onnx''). os_path_exists fs (path_join checkpoints_dir n)"
  shows "verify_onnx_exports onnx_parse fs =
     (Inr (glob fs ''.onnx'' \<noteq> []), verify_lines onnx_parse fs)"
proof (cases "glob fs ''.onnx'' = []")
  case True
  then show ?thesis
    by (simp add: verify_onnx_exports_def verify_lines_def py_return_def py_print_def)
next
  case False
  have "\<forall>n \<in> set (sort (glob fs ''.onnx'')).
          os_stat fs (path_join checkpoints_dir n) = Some (listed_bytes fs n)"
    using glob_listed assms by simp
  from report_files_eq[OF this] False show ?thesis
    by (simp add: verify_onnx_exports_def verify_lines_def py_return_def py_print_def
        table_rows_eq Let_def del: os_stat_in_dir)
qed

lemma table_row_mem:
  "TableRow n t p d \<in> set (concat (map (table_line fs) info)) \<longleftrightarrow>
     (n, d) \<in> set info \<and> p = ''~2-9M'' \<and>
     (\<exists>b. os_stat fs (path_join checkpoints_dir n) = Some b \<and> t = format_1f (div_mib b))"
proof -
  have one: "TableRow n t p d \<in> set (table_line fs x) \<longleftrightarrow>
      x = (n, d) \<and> p = ''~2-9M'' \<and>
      (\<exists>b. os_stat fs (path_join checkpoints_dir n) = Some b \<and> t = format_1f (div_mib b))"
    for x
    by (cases x; cases "os_stat fs (path_join checkpoints_dir (fst x))")
       (auto simp: table_line_def simp del: os_stat_in_dir)
  show ?thesis by (auto simp: one simp del: os_stat_in_dir)
qed

lemma no_table_row_in_report [simp]: "TableRow n t p d \<notin> set (report_lines L b f)"
  by (auto simp: report_lines_def analysis_lines_def input_line_def output_line_def
      split: sum.splits list.splits)

lemma no_table_row_in_reports [simp]:
  "TableRow n t p d \<notin> set (concat (map (\<lambda>f. report_lines L (g f) f) names))"
  by auto

lemma no_table_row_in_closing [simp]: "TableRow n t p d \<notin> set closing_lines"
  by (simp add: closing_lines_def)

lemma model_info_onnx: "(n, d) \<in> set model_info \<Longrightarrow> ends_with ''.onnx'' n"
  by (auto simp: model_info_def ends_with_def)

lemma table_row_in_verify:
  assumes "\<forall>n \<in> set (glob fs ''.onnx''). os_path_exists fs (path_join checkpoints_dir n)"
  shows "TableRow n t p d \<in> set (verify_lines L fs) \<longleftrightarrow>
     (n, d) \<in> set model_info \<and> p = ''~2-9M'' \<and>
     (\<exists>entries w. checkpoints fs = Some entries \<and> map_of entries n = Some (Some w)
        \<and> t = format_1f (div_mib (unat w)))"
proof (cases "glob fs ''.onnx'' = []")
  case False
  then have "TableRow n t p d \<in> set (verify_lines L fs) \<longleftrightarrow>
      TableRow n t p d \<in> set (concat (map (table_line fs) model_info))"
    by (simp add: verify_lines_def Let_def del: set_concat)
  then show ?thesis
    by (auto simp: table_row_mem os_stat_entry simp del: set_concat os_stat_in_dir)
next
  case True
  have "map_of entries n = None"
    if "(n, d) \<in> set model_info" "checkpoints fs = Some entries" for entries
  proof (rule ccontr)
    assume "map_of entries n \<noteq> None"
    from glob_entry[OF that(2) this model_info_onnx[OF that(1)]] True show False by simp
  qed
  with True show ?thesis by (auto simp: verify_lines_def)
qed

lemma filter_report_lines:
  "filter is_input (report_lines L b f) =
     (case L (path_join checkpoints_dir f) of
        Inl e \<Rightarrow> []
      | Inr model \<Rightarrow> (case graph_input model of [] \<Rightarrow> [] | t # _ \<Rightarrow> [input_line t]))"
  "filter is_output (report_lines L b f) =
     (case L (path_join checkpoints_dir f) of
        Inl e \<Rightarrow> []
      | Inr model \<Rightarrow> map output_line (enumerate 0 (graph_output model)))"
proof -
  have o: "filter is_input (map output_line xs) = []"
    "filter is_output (map output_line xs) = map output_line xs" for xs
    by (induction xs) (auto simp: output_line_def is_input_def is_output_def)
  show "filter is_input (report_lines L b f) =
     (case L (path_join checkpoints_dir f) of
        Inl e \<Rightarrow> []
      | Inr model \<Rightarrow> (case graph_input model of [] \<Rightarrow> [] | t # _ \<Rightarrow> [input_line t]))"
    by (simp add: report_lines_def analysis_lines_def o is_input_def input_line_def
        split: sum.splits list.splits)
  show "filter is_output (report_lines L b f) =
     (case L (path_join checkpoints_dir f) of
        Inl e \<Rightarrow> []
      | Inr model \<Rightarrow> map output_line (enumerate 0 (graph_output model)))"
    by (simp add: report_lines_def analysis_lines_def o is_output_def input_line_def
        split: sum.splits list.splits)
qed

lemma sparse_shown:
  "format_1f (div_mib 9007199255003137) = 85899345922"
  "format_1f (of_nat 9007199255003137 / 1048576) = 85899345923"
proof -
  have "bit_length 9007199255003137 = Suc 53"
    by (rule bit_length_eq) simp_all
  moreover have "round_half_even (9007199255003137 / 2) = 4503599627501568"
  proof -
    have "\<lfloor>(9007199255003137::rat) / 2\<rfloor> = 4503599627501568" by (simp add: floor_unique)
    then show ?thesis by (simp add: round_half_even_def Let_def)
  qed
  ultimately have d: "div_mib 9007199255003137 = 9007199255003136 / 1048576"
    by (simp add: div_mib_def)
  have "\<lfloor>(10::rat) * (9007199255003136 / 1048576)\<rfloor> = 85899345922" by (simp add: floor_unique)
  then show "format_1f (div_mib 9007199255003137) = 85899345922"
    by (simp add: format_1f_def round_half_even_def Let_def d)
  have "\<lfloor>(10::rat) * (of_nat 9007199255003137 / 1048576)\<rfloor> = 85899345922"
    by (simp add: floor_unique)
  then show "format_1f (of_nat 9007199255003137 / 1048576) = 85899345923"
    by (simp add: format_1f_def round_half_even_def Let_def)
qed

lemma dangling_sort: "sort [''yolo11n.onnx'', ''best.onnx''] = [''best.onnx'', ''yolo11n.onnx'']"
  by code_simp

section \<open>Properties of the verifier\<close>

text \<open>
  Claim C6 as stated, that the report of every exported file that parses has exactly
  one input entry, fails for a model that declares no input: the script prints the
  input line only under \<open>if analysis['inputs']\<close>, and prints none for it.
\<close>

theorem report_without_input_counterexample:
  "''const.onnx'' \<in> set (glob demo_exports ''.onnx'') \<and>
   onnx_load demo_onnx demo_exports (path_join checkpoints_dir ''const.onnx'') = Inr const_model \<and>
   filter is_input (snd (report_file demo_onnx demo_exports ''const.onnx'')) = []"
proof -
  have g: "''const.onnx'' \<in> set (glob demo_exports ''.onnx'')"
    by (simp add: glob_def demo_exports_def ends_with_def)
  have s: "os_stat demo_exports (path_join checkpoints_dir ''const.onnx'') = Some 262144"
    by (simp add: demo_exports_def)
  have p: "demo_onnx (path_join checkpoints_dir ''const.onnx'') = Inr const_model"
    by (simp add: demo_onnx_def path_join_def checkpoints_dir_def)
  have l: "onnx_load demo_onnx demo_exports (path_join checkpoints_dir ''const.onnx'') = Inr const_model"
    using s p by (simp add: onnx_load_def del: os_stat_in_dir)
  have "graph_input const_model = []" by (simp add: const_model_def)
  with report_file_present[OF s, of demo_onnx] p l g show ?thesis
    by (simp add: filter_report_lines)
qed

text \<open>
  Claim C6, amended. For every exported file of the directory that parses, the report
  has one input entry, the name and dimension list of the first declared input, when
  the model declares an input, and none when it declares none; and it has one line for
  each declared output, in the order of declaration, numbered from 1, with the output's
  name and dimension list.
\<close>

theorem report_lists_first_input_and_every_output:
  "file_name \<in> set (glob fs ''.onnx'') \<Longrightarrow>
   onnx_load onnx_parse fs (path_join checkpoints_dir file_name) = Inr model \<Longrightarrow>
   (case report_file onnx_parse fs file_name of (r, out) \<Rightarrow>
      r = Inr () \<and>
      filter is_input out =
        (case graph_input model of
           [] \<Rightarrow> []
         | t # _ \<Rightarrow> [Input (PyStr (vi_name t)) (PyList (map PyInt (vi_dims t)))]) \<and>
      filter is_output out =
        map (\<lambda>(i, t). Output (i + 1) (PyStr (vi_name t)) (PyList (map PyInt (vi_dims t))))
          (enumerate 0 (graph_output model)) \<and>
      length (filter is_output out) = length (graph_output model))"
proof -
  assume g: "file_name \<in> set (glob fs ''.onnx'')"
    and l: "onnx_load onnx_parse fs (path_join checkpoints_dir file_name) = Inr model"
  from l obtain bytes where s: "os_stat fs (path_join checkpoints_dir file_name) = Some bytes"
    by (cases "os_stat fs (path_join checkpoints_dir file_name)")
       (auto simp: onnx_load_def simp del: os_stat_in_dir)
  with l have p: "onnx_parse (path_join checkpoints_dir file_name) = Inr model"
    by (simp add: onnx_load_def del: os_stat_in_dir)
  show ?thesis
    using report_file_present[OF s, of onnx_parse] p
    by (simp add: filter_report_lines input_line_def output_line_def split: list.splits)
qed

theorem report_lists_first_input_and_every_output_witness:
  "''yolov8n.onnx'' \<in> set (glob demo_exports ''.onnx'') \<and>
   onnx_load demo_onnx demo_exports (path_join checkpoints_dir ''yolov8n.onnx'') = Inr demo_model \<and>
   (case report_file demo_onnx demo_exports ''yolov8n.onnx'' of (r, out) \<Rightarrow>
      r = Inr () \<and>
      filter is_input out = [Input (PyStr ''images'') (PyList [PyInt 1, PyInt 3, PyInt 640, PyInt 640])] \<and>
      filter is_output out =
        [Output 1 (PyStr ''output0'') (PyList [PyInt 1, PyInt 116, PyInt 8400]),
         Output 2 (PyStr ''output1'') (PyList [PyInt 1, PyInt 32, PyInt 160, PyInt 160])])"
proof -
  have g: "''yolov8n.onnx'' \<in> set (glob demo_exports ''.onnx'')"
    by (simp add: glob_def demo_exports_def ends_with_def)
  have l: "onnx_load demo_onnx demo_exports (path_join checkpoints_dir ''yolov8n.onnx'') = Inr demo_model"
    by (simp add: onnx_load_def demo_exports_def)
       (simp add: demo_onnx_def path_join_def checkpoints_dir_def)
  have e: "enumerate 0 (graph_output demo_model) =
      [(0, \<lparr>vi_name = ''output0'', vi_dims = [1, 116, 8400], vi_elem_type = 1\<rparr>),
       (1, \<lparr>vi_name = ''output1'', vi_dims = [1, 32, 160, 160], vi_elem_type = 1\<rparr>)]"
    "graph_input demo_model = [\<lparr>vi_name = ''images'', vi_dims = [1, 3, 640, 640], vi_elem_type = 1\<rparr>]"
    by (simp_all add: demo_model_def)
  from report_lists_first_input_and_every_output
         [where file_name="''yolov8n.onnx''" and fs=demo_exports and onnx_parse=demo_onnx
            and model=demo_model, OF g l] g l
  show ?thesis
    by (simp add: e split: prod.splits)
qed

text \<open>
  Claim C7 as stated fails in two ways. The size of each file the glob yields is read
  outside any \<open>try\<close> (line 65): with a dangling link \<open>best.onnx\<close> in the directory the
  run ends there with \<open>FileNotFoundError\<close> and status 1, before the table, so
  \<open>yolo11n.onnx\<close> exists and has no row. And the size shown is the rendering of a
  float: for a file of \<open>2^53 + 262145\<close> bytes the row shows 8589934592.2, where the
  quotient is 8589934592.25000095 and rounds to 8589934592.3.
\<close>

theorem reference_table_counterexample:
  "os_path_exists dangling_exports (path_join checkpoints_dir ''yolo11n.onnx'') \<and>
   (''yolo11n.onnx'', ''Fastest inference, lowest memory'') \<in> set model_info \<and>
   verify_onnx_exports demo_onnx dangling_exports =
     (Inl (Exn ''FileNotFoundError'' ''checkpoints/best.onnx''),
      [Title, DoubleRule, FoundModels 2, FileName ''best.onnx'']) \<and>
   fst (verifier_main demo_onnx dangling_exports) = 1 \<and>
   os_stat sparse_exports (path_join checkpoints_dir ''yolo11n.onnx'') = Some 9007199255003137 \<and>
   TableRow ''yolo11n.onnx'' 85899345922 ''~2-9M'' ''Fastest inference, lowest memory''
     \<in> set (snd (verify_onnx_exports demo_onnx sparse_exports)) \<and>
   format_1f (of_nat 9007199255003137 / 1048576) = 85899345923 \<and>
   1 / 20 < \<bar>85899345922 / 10 - (of_nat 9007199255003137 / 1048576 :: rat)\<bar>"
proof -
  have m: "(''yolo11n.onnx'', ''Fastest inference, lowest memory'') \<in> set model_info"
    by (simp add: model_info_def)
  have e: "os_path_exists dangling_exports (path_join checkpoints_dir ''yolo11n.onnx'')"
    by (simp add: os_path_exists_def dangling_exports_def)
  have g: "glob dangling_exports ''.onnx'' = [''yolo11n.onnx'', ''best.onnx'']"
    by (simp add: glob_def dangling_exports_def ends_with_def)
  have rf: "report_files demo_onnx dangling_exports [''best.onnx'', ''yolo11n.onnx''] =
      (Inl (Exn ''FileNotFoundError'' ''checkpoints/best.onnx''), [FileName ''best.onnx''])"
  proof -
    have "os_stat dangling_exports (path_join checkpoints_dir ''best.onnx'') = None"
      by (simp add: dangling_exports_def)
    from report_file_dangling[OF this, of demo_onnx] show ?thesis
      by (simp add: path_join_def checkpoints_dir_def)
  qed
  have v: "verify_onnx_exports demo_onnx dangling_exports =
     (Inl (Exn ''FileNotFoundError'' ''checkpoints/best.onnx''),
      [Title, DoubleRule, FoundModels 2, FileName ''best.onnx''])"
    by (simp add: verify_onnx_exports_def g dangling_sort rf py_print_def py_bind_def
        del: report_files.simps)
  have x: "fst (verifier_main demo_onnx dangling_exports) = 1"
    by (simp add: verifier_main_def v)
  have a: "\<forall>n \<in> set (glob sparse_exports ''.onnx'').
             os_path_exists sparse_exports (path_join checkpoints_dir n)"
    by (simp add: glob_def sparse_exports_def ends_with_def os_path_exists_def)
  have st: "os_stat sparse_exports (path_join checkpoints_dir ''yolo11n.onnx'') = Some 9007199255003137"
    by (simp add: sparse_exports_def)
  have c: "checkpoints sparse_exports = Some [(''yolo11n.onnx'', Some 9007199255003137)]"
    by (simp add: sparse_exports_def)
  have "TableRow ''yolo11n.onnx'' 85899345922 ''~2-9M'' ''Fastest inference, lowest memory''
          \<in> set (verify_lines demo_onnx sparse_exports)"
    unfolding table_row_in_verify[OF a] using m c by (simp add: sparse_shown(1))
  then have r: "TableRow ''yolo11n.onnx'' 85899345922 ''~2-9M'' ''Fastest inference, lowest memory''
          \<in> set (snd (verify_onnx_exports demo_onnx sparse_exports))"
    by (simp add: verify_eq[OF a])
  have d: "1 / 20 < \<bar>85899345922 / 10 - (of_nat 9007199255003137 / 1048576 :: rat)\<bar>"
    by simp
  from m e v x st r sparse_shown(2) d show ?thesis by (simp only: simp_thms)
qed

text \<open>
  Claim C7, amended. When \<open>stat\<close> succeeds on every entry of the directory that ends in
  \<open>.onnx\<close>, the verifier runs to its end and its output has a row of the reference
  table for a name exactly when the name is one of the six canonical names and the
  directory has an entry of that name. The size the row shows is the float nearest to
  the entry's size in bytes divided by 1,048,576, rendered with one decimal: it is
  within 0.05 + 1/1024 of the quotient, and for a size below \<open>2^53\<close> bytes it is the
  quotient itself rounded to one decimal, within 0.05 of it.
\<close>

theorem reference_table_rows:
  "\<forall>n \<in> set (glob fs ''.onnx''). os_path_exists fs (path_join checkpoints_dir n) \<Longrightarrow>
   (case verify_onnx_exports onnx_parse fs of (r, out) \<Rightarrow>
      r = Inr (glob fs ''.onnx'' \<noteq> []) \<and>
      (\<forall>n t p d. TableRow n t p d \<in> set out \<longleftrightarrow>
         (n, d) \<in> set model_info \<and> p = ''~2-9M'' \<and>
         (\<exists>entries bytes. checkpoints fs = Some entries \<and> map_of entries n = Some (Some bytes) \<and>
            t = format_1f (div_mib (unat bytes)) \<and>
            \<bar>of_int t / 10 - (of_nat (unat bytes) / 1048576 :: rat)\<bar> \<le> 1 / 20 + 1 / 1024 \<and>
            (unat bytes < 2 ^ 53 \<longrightarrow>
               t = format_1f (of_nat (unat bytes) / 1048576) \<and>
               \<bar>of_int t / 10 - (of_nat (unat bytes) / 1048576 :: rat)\<bar> \<le> 1 / 20))))"
proof -
  assume a: "\<forall>n \<in> set (glob fs ''.onnx''). os_path_exists fs (path_join checkpoints_dir n)"
  have w: "unat bytes < 2 ^ 64" for bytes :: "64 word"
    using unsigned_less[of bytes, where ?'a = nat] by simp
  have "t = format_1f (div_mib (unat bytes)) \<longleftrightarrow>
          t = format_1f (div_mib (unat bytes)) \<and>
          \<bar>of_int t / 10 - (of_nat (unat bytes) / 1048576 :: rat)\<bar> \<le> 1 / 20 + 1 / 1024 \<and>
          (unat bytes < 2 ^ 53 \<longrightarrow>
             t = format_1f (of_nat (unat bytes) / 1048576) \<and>
             \<bar>of_int t / 10 - (of_nat (unat bytes) / 1048576 :: rat)\<bar> \<le> 1 / 20)"
    for t and bytes :: "64 word"
    using shown_near[OF w[of bytes]] format_1f_near[of "of_nat (unat bytes) / 1048576"]
    by (auto simp: div_mib_exact)
  then have "(\<exists>entries b. checkpoints fs = Some entries \<and> map_of entries n = Some (Some b)
           \<and> t = format_1f (div_mib (unat b)))
        \<longleftrightarrow> (\<exists>entries bytes. checkpoints fs = Some entries \<and> map_of entries n = Some (Some bytes) \<and>
            t = format_1f (div_mib (unat bytes)) \<and>
            \<bar>of_int t / 10 - (of_nat (unat bytes) / 1048576 :: rat)\<bar> \<le> 1 / 20 + 1 / 1024 \<and>
            (unat bytes < 2 ^ 53 \<longrightarrow>
               t = format_1f (of_nat (unat bytes) / 1048576) \<and>
               \<bar>of_int t / 10 - (of_nat (unat bytes) / 1048576 :: rat)\<bar> \<le> 1 / 20))" for n t
    by blast
  then show ?thesis
    by (simp add: verify_eq[OF a] table_row_in_verify[OF a])
qed

theorem reference_table_rows_witness:
  "glob demo_exports ''.onnx'' = [''yolov8n.onnx'', ''const.onnx'', ''broken.onnx''] \<and>
   os_path_exists demo_exports (path_join checkpoints_dir ''yolov8n.onnx'') \<and>
   os_path_exists demo_exports (path_join checkpoints_dir ''const.onnx'') \<and>
   os_path_exists demo_exports (path_join checkpoints_dir ''broken.onnx'') \<and>
   (case verify_onnx_exports demo_onnx demo_exports of (r, out) \<Rightarrow>
     r = Inr True \<and>
     TableRow ''yolov8n.onnx'' 122 ''~2-9M'' ''Proven performance, good speed'' \<in> set out \<and>
     (\<forall>t p d. TableRow ''yolo11n.onnx'' t p d \<notin> set out))"
proof -
  have gl: "glob demo_exports ''.onnx'' = [''yolov8n.onnx'', ''const.onnx'', ''broken.onnx'']"
    by (simp add: glob_def demo_exports_def ends_with_def)
  have ex: "os_path_exists demo_exports (path_join checkpoints_dir ''yolov8n.onnx'')"
    "os_path_exists demo_exports (path_join checkpoints_dir ''const.onnx'')"
    "os_path_exists demo_exports (path_join checkpoints_dir ''broken.onnx'')"
    by (simp_all add: demo_exports_def os_path_exists_def)
  have a: "\<forall>n \<in> set (glob demo_exports ''.onnx'').
             os_path_exists demo_exports (path_join checkpoints_dir n)"
    using ex by (simp add: gl)
  have ne: "glob demo_exports ''.onnx'' \<noteq> []"
    by (simp add: gl)
  obtain r out where v: "verify_onnx_exports demo_onnx demo_exports = (r, out)"
    by (cases "verify_onnx_exports demo_onnx demo_exports")
  have dm: "div_mib 12792627 = 12792627 / 1048576" by (simp add: div_mib_exact)
  have fl: "\<lfloor>(10::rat) * (12792627 / 1048576)\<rfloor> = 121"
    by (simp add: floor_unique)
  have f: "format_1f (div_mib 12792627) = 122"
    by (simp only: format_1f_def round_half_even_def Let_def dm fl) simp
  have m: "(''yolov8n.onnx'', ''Proven performance, good speed'') \<in> set model_info"
    by (simp add: model_info_def)
  have c: "checkpoints demo_exports =
      Some [(''yolov8n.onnx'', Some 12792627), (''yolov8n.pt'', Some 6549796),
            (''const.onnx'', Some 262144), (''broken.onnx'', Some 3)]"
    by (simp add: demo_exports_def)
  have g: "map_of [(''yolov8n.onnx'', Some (12792627::64 word)), (''yolov8n.pt'', Some 6549796),
            (''const.onnx'', Some 262144), (''broken.onnx'', Some 3)] ''yolov8n.onnx''
             = Some (Some 12792627)"
    "map_of [(''yolov8n.onnx'', Some (12792627::64 word)), (''yolov8n.pt'', Some 6549796),
            (''const.onnx'', Some 262144), (''broken.onnx'', Some 3)] ''yolo11n.onnx'' = None"
    by simp_all
  from reference_table_rows[where onnx_parse=demo_onnx and fs=demo_exports, OF a] v
  have res: "r = Inr (glob demo_exports ''.onnx'' \<noteq> [])"
    and iff: "TableRow n t p d \<in> set out \<longleftrightarrow>
        (n, d) \<in> set model_info \<and> p = ''~2-9M'' \<and>
        (\<exists>entries bytes. checkpoints demo_exports = Some entries
           \<and> map_of entries n = Some (Some bytes) \<and>
           t = format_1f (div_mib (unat bytes)) \<and>
           \<bar>of_int t / 10 - (of_nat (unat bytes) / 1048576 :: rat)\<bar> \<le> 1 / 20 + 1 / 1024 \<and>
           (unat bytes < 2 ^ 53 \<longrightarrow>
              t = format_1f (of_nat (unat bytes) / 1048576) \<and>
              \<bar>of_int t / 10 - (of_nat (unat bytes) / 1048576 :: rat)\<bar> \<le> 1 / 20))" for n t p d
    by simp_all
  have n: "\<bar>of_int (format_1f (div_mib 12792627)) / 10 - (of_nat 12792627 / 1048576 :: rat)\<bar>
             \<le> 1 / 20 + 1 / 1024"
    by (rule shown_near) simp
  have n': "format_1f (div_mib 12792627) = format_1f (of_nat 12792627 / 1048576)"
    "\<bar>of_int (format_1f (div_mib 12792627)) / 10 - (of_nat 12792627 / 1048576 :: rat)\<bar> \<le> 1 / 20"
    using format_1f_near[of "of_nat 12792627 / 1048576"] by (simp_all add: div_mib_exact)
  have "TableRow ''yolov8n.onnx'' 122 ''~2-9M'' ''Proven performance, good speed'' \<in> set out"
    unfolding iff
    by (intro conjI m refl exI[of _ "[(''yolov8n.onnx'', Some (12792627::64 word)),
          (''yolov8n.pt'', Some 6549796), (''const.onnx'', Some 262144), (''broken.onnx'', Some 3)]"]
          exI[of _ "12792627::64 word"] c g(1))
       (use f n n' in simp_all)
  moreover have "TableRow ''yolo11n.onnx'' t p d \<notin> set out" for t p d
    unfolding iff using c g(2) by auto
  ultimately show ?thesis using v gl ex res ne by simp
qed

text \<open>
  Claim C9. The verifier does not test whether the directory exists. When it is
  missing the glob yields no file: the verifier prints the heading and the message that
  no file was found and returns \<open>False\<close> without raising, which is what it does for a
  directory that exists and is empty, and the process ends with status 0 in both cases.
\<close>

theorem verifier_missing_directory_like_empty:
  "\<not> dir_exists fs \<Longrightarrow>
     verify_onnx_exports onnx_parse fs = (Inr False, [Title, DoubleRule, NoOnnx]) \<and>
     verify_onnx_exports onnx_parse (fs\<lparr>checkpoints := Some []\<rparr>)
       = verify_onnx_exports onnx_parse fs \<and>
     verifier_main onnx_parse fs = (0, [Title, DoubleRule, NoOnnx]) \<and>
     verifier_main onnx_parse (fs\<lparr>checkpoints := Some []\<rparr>) = (0, [Title, DoubleRule, NoOnnx])"
  by (simp add: verifier_main_def verify_onnx_exports_def glob_def dir_exists_def
      py_seq_def py_bind_def py_print_def py_return_def)

theorem verifier_missing_directory_witness:
  "\<not> dir_exists missing_fs \<and>
   verify_onnx_exports demo_onnx missing_fs = (Inr False, [Title, DoubleRule, NoOnnx]) \<and>
   verifier_main demo_onnx missing_fs = (0, [Title, DoubleRule, NoOnnx]) \<and>
   verifier_main demo_onnx \<lparr>checkpoints = Some [], elsewhere = []\<rparr>
     = (0, [Title, DoubleRule, NoOnnx])"
proof -
  have h: "\<not> dir_exists missing_fs" by (simp add: dir_exists_def missing_fs_def)
  from verifier_missing_directory_like_empty[OF h, of demo_onnx] h show ?thesis
    by (simp add: missing_fs_def)
qed

text \<open>
  Claim C10. \<open>analyze_onnx_model\<close> returns a dictionary for every path and parse and
  raises nothing: the single key \<open>error\<close> with \<open>str(e)\<close> when \<open>onnx.load\<close> raised
  \<open>e\<close>, and otherwise the keys \<open>inputs\<close>, \<open>outputs\<close> and \<open>opset_version\<close> with no key
  \<open>error\<close>.
\<close>

theorem analyze_onnx_model_total:
  "case analyze_onnx_model onnx_parse fs onnx_path of
     Inl e \<Rightarrow> False
   | Inr analysis \<Rightarrow>
       (case onnx_load onnx_parse fs onnx_path of
          Inl e \<Rightarrow> analysis = [(''error'', PyStr (str_exn e))]
        | Inr model \<Rightarrow>
            map fst analysis = [''inputs'', ''outputs'', ''opset_version''] \<and>
            map_of analysis ''error'' = None)"
  by (simp add: analyze_onnx_model_def analyze_try_def split: sum.splits)

theorem analyze_onnx_model_total_witness:
  "analyze_onnx_model demo_onnx demo_exports ''checkpoints/broken.onnx''
     = Inr [(''error'', PyStr ''Error parsing message'')] \<and>
   (\<exists>d. analyze_onnx_model demo_onnx demo_exports ''checkpoints/yolov8n.onnx'' = Inr d \<and>
        map fst d = [''inputs'', ''outputs'', ''opset_version''])"
proof -
  have l: "onnx_load demo_onnx demo_exports ''checkpoints/broken.onnx''
             = Inl (Exn ''DecodeError'' ''Error parsing message'')"
    "onnx_load demo_onnx demo_exports ''checkpoints/yolov8n.onnx'' = Inr demo_model"
    by (simp_all add: onnx_load_def os_stat_def path_join_def checkpoints_dir_def
        demo_exports_def demo_onnx_def)
  from analyze_onnx_model_total[of demo_onnx demo_exports "''checkpoints/broken.onnx''"]
    analyze_onnx_model_total[of demo_onnx demo_exports "''checkpoints/yolov8n.onnx''"] l
  show ?thesis by (auto split: sum.splits)
qed

end
